theory Spec2Isabelle
  imports Complex_Main "HOL-Library.Word"
begin

unbundle bit_operations_syntax

section \<open>Bytes, buffers and JavaScript errors\<close>

text \<open>
  A Node.js Buffer is a list of bytes. The exceptions the sources raise (or that the
  runtime raises for them) are values: a function that can throw returns
  \<open>js_error + 'a\<close> with \<open>Inl\<close> the exception.
\<close>

type_synonym byte = "8 word"
type_synonym bytes = "byte list"

datatype js_error = TypeError | RangeError | ReferenceError

text \<open>\<open>Math.trunc\<close>: rounding towards zero.\<close>

definition Math_trunc :: "rat \<Rightarrow> int" where
  "Math_trunc x = (if x < 0 then \<lceil>x\<rceil> else \<lfloor>x\<rfloor>)"

text \<open>
  \<open>buf.slice(start, end)\<close>: both offsets are truncated to integers, a negative offset
  counts from the end of the buffer, and both are clamped to the buffer.
\<close>

definition adjustOffset :: "rat \<Rightarrow> nat \<Rightarrow> nat" where
  "adjustOffset offset len =
     (let off = Math_trunc offset in
      if off = 0 then 0
      else if off < 0 then (if off + int len > 0 then nat (off + int len) else 0)
      else if off < int len then nat off
      else len)"

definition Buffer_slice :: "bytes \<Rightarrow> rat \<Rightarrow> rat \<Rightarrow> bytes" where
  "Buffer_slice buf start end =
     (let s = adjustOffset start (length buf); e = adjustOffset end (length buf)
      in take (e - s) (drop s buf))"

text \<open>\<open>new Buffer(str)\<close> for the ASCII labels the program uses: one byte per character.\<close>

definition Buffer_from_string :: "string \<Rightarrow> bytes" where
  "Buffer_from_string s = map (\<lambda>c. of_nat (of_char c)) s"

text \<open>\<open>buf[i]\<close>: \<open>undefined\<close> (here \<open>None\<close>) outside the buffer.\<close>

definition Buffer_index :: "bytes \<Rightarrow> int \<Rightarrow> byte option" where
  "Buffer_index buf i = (if 0 \<le> i \<and> i < int (length buf) then Some (buf ! nat i) else None)"

text \<open>Sequencing of steps that can throw: the first exception wins.\<close>

definition bindE :: "js_error + 'a \<Rightarrow> ('a \<Rightarrow> js_error + 'b) \<Rightarrow> js_error + 'b" where
  "bindE m f = (case m of Inl e \<Rightarrow> Inl e | Inr v \<Rightarrow> f v)"

text \<open>
  Big-endian integers. \<open>writeUIntBE\<close> and \<open>writeUInt16BE\<close> throw a RangeError for a
  value that does not fit, the reads for a range outside the buffer.
\<close>

fun bytesBE :: "nat \<Rightarrow> nat \<Rightarrow> bytes" where
  "bytesBE 0 v = []"
| "bytesBE (Suc n) v = bytesBE n (v div 256) @ [of_nat (v mod 256)]"

definition writeUIntBE :: "nat \<Rightarrow> nat \<Rightarrow> js_error + bytes" where
  "writeUIntBE v byteLength =
     (if v < 256 ^ byteLength then Inr (bytesBE byteLength v) else Inl RangeError)"

definition writeUInt16BE :: "nat \<Rightarrow> js_error + bytes" where
  "writeUInt16BE v = writeUIntBE v 2"

definition uintBE :: "bytes \<Rightarrow> nat" where
  "uintBE bs = foldl (\<lambda>acc b. acc * 256 + unat b) 0 bs"

definition readUIntBE :: "bytes \<Rightarrow> nat \<Rightarrow> nat \<Rightarrow> js_error + nat" where
  "readUIntBE buf off byteLength =
     (if off + byteLength \<le> length buf then Inr (uintBE (take byteLength (drop off buf)))
      else Inl RangeError)"

definition readUInt16BE :: "bytes \<Rightarrow> nat \<Rightarrow> js_error + nat" where
  "readUInt16BE buf off = readUIntBE buf off 2"

text \<open>
  \<open>t = Buffer.alloc(n); buf.copy(t, 0, start, end)\<close>: the copied range is clamped to the
  source, and what is not copied stays zero.
\<close>

definition Buffer_alloc_copy :: "nat \<Rightarrow> bytes \<Rightarrow> nat \<Rightarrow> nat \<Rightarrow> bytes" where
  "Buffer_alloc_copy n buf start end = take n (take (end - start) (drop start buf) @ replicate n 0)"

text \<open>\<open>new Buffer(x)\<close> copies a buffer and throws a TypeError for \<open>null\<close>.\<close>

definition new_Buffer :: "bytes option \<Rightarrow> js_error + bytes" where
  "new_Buffer x = (case x of None \<Rightarrow> Inl TypeError | Some b \<Rightarrow> Inr b)"

section \<open>The crypto library\<close>

text \<open>
  The symmetric primitives come from Node's \<open>crypto\<close> module, which is not part of the
  program; they are parameters of the model.
  \<^item> \<open>createHmac alg key data\<close> is \<open>crypto.createHmac(alg, key).update(data).digest()\<close>;
  \<^item> \<open>createHash alg data\<close> is \<open>crypto.createHash(alg).update(data).digest()\<close>;
  \<^item> \<open>cipher alg key iv data\<close> is \<open>createCipheriv(alg, key, iv)\<close> with automatic padding
    off, \<open>update(data)\<close> and \<open>final()\<close> concatenated; \<open>decipher\<close> likewise with
    \<open>createDecipheriv\<close>; both throw on a bad key, IV or data length;
  \<^item> \<open>randomBytes i n\<close> is what the \<open>i\<close>-th call of \<open>crypto.randomBytes\<close> returns
    when asked for \<open>n\<close> bytes.
  \<open>CryptoUtils.verifyCrypto()\<close> is taken to succeed: \<open>connect\<close> leaves without
  sending anything when the module cannot be loaded.
\<close>

record crypto =
  createHmac :: "string \<Rightarrow> bytes \<Rightarrow> bytes \<Rightarrow> bytes"
  createHash :: "string \<Rightarrow> bytes \<Rightarrow> bytes"
  cipher :: "string \<Rightarrow> bytes \<Rightarrow> bytes \<Rightarrow> bytes \<Rightarrow> js_error + bytes"
  decipher :: "string \<Rightarrow> bytes \<Rightarrow> bytes \<Rightarrow> bytes \<Rightarrow> js_error + bytes"
  randomBytes :: "nat \<Rightarrow> nat \<Rightarrow> bytes"

section \<open>CryptoUtils.js\<close>

text \<open>
  \<open>xorBuffers\<close>: the result has the length of the first buffer; a byte missing from the
  second one reads as \<open>undefined\<close>, which \<open>^\<close> treats as 0.
\<close>

definition xorBuffers :: "bytes \<Rightarrow> bytes \<Rightarrow> bytes" where
  "xorBuffers buffer1 buffer2 =
     map (\<lambda>i. (buffer1 ! i) XOR (if i < length buffer2 then buffer2 ! i else 0))
       [0..<length buffer1]"

text \<open>
  The \<open>while (result.length < outputLength)\<close> loop of \<open>P_hash\<close>. It runs for ever when
  the HMAC returns an empty digest, so the loop is a partial function: \<open>None\<close> is
  not returning.
\<close>

partial_function (option) P_hash_loop ::
  "(bytes \<Rightarrow> bytes) \<Rightarrow> bytes \<Rightarrow> nat \<Rightarrow> bytes \<Rightarrow> bytes \<Rightarrow> bytes option" where
  "P_hash_loop hmac seed outputLength result data =
     (if length result < outputLength then
        (let dataForNextIteration = hmac data;
             hmac2 = hmac (dataForNextIteration @ seed)
         in P_hash_loop hmac seed outputLength (result @ hmac2) dataForNextIteration)
      else Some result)"

declare P_hash_loop.simps [code]

definition P_hash :: "crypto \<Rightarrow> bytes \<Rightarrow> bytes \<Rightarrow> nat \<Rightarrow> string \<Rightarrow> bytes option" where
  "P_hash L secret seed outputLength algorithm =
     (case P_hash_loop (createHmac L algorithm secret) seed outputLength [] seed of
        None \<Rightarrow> None
      | Some result \<Rightarrow>
          Some (if length result > outputLength then take outputLength result else result))"

text \<open>
  The two halves of the secret, as \<open>PRF\<close> computes them. \<open>secret.length / 2\<close> is a
  division of JavaScript numbers, so it is not an integer for an odd length; \<open>slice\<close>
  truncates its arguments.
\<close>

definition secretEachHalfLength :: "bytes \<Rightarrow> rat" where
  "secretEachHalfLength secret =
     (of_nat (length secret) / 2) + of_nat (length secret mod 2)"

definition secretFirstHalf :: "bytes \<Rightarrow> bytes" where
  "secretFirstHalf secret = Buffer_slice secret 0 (secretEachHalfLength secret)"

definition secretSecondHalf :: "bytes \<Rightarrow> bytes" where
  "secretSecondHalf secret =
     Buffer_slice secret ((of_nat (length secret) / 2) - of_nat (length secret mod 2))
       (of_nat (length secret))"

definition PRF :: "crypto \<Rightarrow> bytes \<Rightarrow> string \<Rightarrow> bytes \<Rightarrow> nat \<Rightarrow> bytes option" where
  "PRF L secret label seed outputLength =
     (let combinedSeed = Buffer_from_string label @ seed in
      case P_hash L (secretFirstHalf secret) combinedSeed outputLength ''md5'' of
        None \<Rightarrow> None
      | Some md5Result \<Rightarrow>
          (case P_hash L (secretSecondHalf secret) combinedSeed outputLength ''sha1'' of
             None \<Rightarrow> None
           | Some sha1Result \<Rightarrow> Some (xorBuffers md5Result sha1Result)))"

text \<open>\<open>createPremasterSecret_FromPresharedKey\<close>.\<close>

definition createPremasterSecret_FromPresharedKey :: "bytes option \<Rightarrow> js_error + bytes" where
  "createPremasterSecret_FromPresharedKey psk =
     bindE (new_Buffer psk) (\<lambda>pskBuffer.
     bindE (writeUInt16BE (length pskBuffer)) (\<lambda>len2.
       Inr (len2 @ replicate (length pskBuffer) 0 @ len2 @ pskBuffer)))"

section \<open>enums.js\<close>

datatype BulkEncryptionAlgorithm = BULK_NULL | AES_128_CBC | AES_256_CBC

datatype MacAlgorithm = MAC_NULL | SHA1

definition getBulkAlgorithmKeySize :: "BulkEncryptionAlgorithm \<Rightarrow> nat" where
  "getBulkAlgorithmKeySize a = (case a of AES_128_CBC \<Rightarrow> 16 | AES_256_CBC \<Rightarrow> 32 | BULK_NULL \<Rightarrow> 0)"

definition getBulkAlgorithmBlockSize :: "BulkEncryptionAlgorithm \<Rightarrow> nat" where
  "getBulkAlgorithmBlockSize a = (case a of AES_128_CBC \<Rightarrow> 16 | AES_256_CBC \<Rightarrow> 16 | BULK_NULL \<Rightarrow> 1)"

definition getBulkAlgorithmAsString :: "BulkEncryptionAlgorithm \<Rightarrow> string" where
  "getBulkAlgorithmAsString a =
     (case a of AES_128_CBC \<Rightarrow> ''aes-128-cbc'' | AES_256_CBC \<Rightarrow> ''aes-256-cbc''
      | BULK_NULL \<Rightarrow> ''null'')"

definition getMacAlgorithmHashSize :: "MacAlgorithm \<Rightarrow> nat" where
  "getMacAlgorithmHashSize a = (case a of SHA1 \<Rightarrow> 20 | MAC_NULL \<Rightarrow> 0)"

definition DTLS_1_0 :: nat where "DTLS_1_0 = 0xfeff"

definition isDtlsVersionValid :: "nat \<Rightarrow> bool" where
  "isDtlsVersionValid v = (v = 0xfeff)"

definition DtlsChangeCipherSpecProtocol :: nat where "DtlsChangeCipherSpecProtocol = 0x14"
definition DtlsAlertProtocol :: nat where "DtlsAlertProtocol = 0x15"
definition DtlsHandshakeProtocol :: nat where "DtlsHandshakeProtocol = 0x16"
definition DtlsApplicationDataProtocol :: nat where "DtlsApplicationDataProtocol = 0x17"

definition isProtocolTypeValid :: "nat \<Rightarrow> bool" where
  "isProtocolTypeValid t = (t = 0x14 \<or> t = 0x15 \<or> t = 0x16 \<or> t = 0x17)"

section \<open>DtlsRecord.js\<close>

record DtlsRecord =
  protocolType :: nat
  dtlsVersion :: nat
  epoch :: nat
  sequenceNumber :: nat
  fragment :: bytes

definition HEADER_LENGTH :: nat where "HEADER_LENGTH = 13"

definition MAX_PLAINTEXT_FRAGMENT_LENGTH :: nat where "MAX_PLAINTEXT_FRAGMENT_LENGTH = 16384"

definition createFromPlaintext ::
  "nat \<Rightarrow> nat \<Rightarrow> nat \<Rightarrow> nat \<Rightarrow> bytes \<Rightarrow> js_error + DtlsRecord" where
  "createFromPlaintext type version ep seqNo frag =
     (if \<not> isProtocolTypeValid type then Inl RangeError
      else if \<not> isDtlsVersionValid version then Inl RangeError
      else if ep > 2 ^ 16 - 1 then Inl RangeError
      else if seqNo > 2 ^ 48 - 1 then Inl RangeError
      else if length frag > MAX_PLAINTEXT_FRAGMENT_LENGTH then Inl RangeError
      else Inr \<lparr>protocolType = type, dtlsVersion = version, epoch = ep,
                sequenceNumber = seqNo, fragment = frag\<rparr>)"

definition buildBufferForMacCalculation ::
  "nat \<Rightarrow> nat \<Rightarrow> nat \<Rightarrow> nat \<Rightarrow> bytes \<Rightarrow> js_error + bytes" where
  "buildBufferForMacCalculation ep seqNo type version frag =
     bindE (writeUInt16BE ep) (\<lambda>b_epoch.
     bindE (writeUIntBE seqNo 6) (\<lambda>b_seq.
     bindE (writeUInt16BE version) (\<lambda>b_version.
     bindE (writeUInt16BE (length frag)) (\<lambda>b_length.
       Inr (b_epoch @ b_seq @ [of_nat type] @ b_version @ b_length @ frag)))))"

text \<open>\<open>Math.ceil(nonPaddedLength / paddingBlockSize)\<close> on positive integers.\<close>

definition buildBufferForEncryption :: "bytes \<Rightarrow> bytes \<Rightarrow> nat \<Rightarrow> bytes" where
  "buildBufferForEncryption frag macHash paddingBlockSize =
     (let nonPaddedLength = length frag + length macHash + 1;
          numBlocks = (nonPaddedLength + paddingBlockSize - 1) div paddingBlockSize;
          paddedLength = numBlocks * paddingBlockSize;
          paddingLength = paddedLength - nonPaddedLength
      in frag @ macHash @ replicate paddingLength (of_nat paddingLength)
           @ [of_nat paddingLength])"

text \<open>
  \<open>toEncryptedBuffer\<close>; \<open>callNo\<close> numbers the call of \<open>randomBytes\<close> that draws the IV.
  The header is written after the encryption, so an exception of the encryption comes
  first.
\<close>

definition toEncryptedBuffer ::
  "crypto \<Rightarrow> nat \<Rightarrow> DtlsRecord \<Rightarrow> BulkEncryptionAlgorithm \<Rightarrow> bytes option \<Rightarrow> MacAlgorithm
     \<Rightarrow> bytes option \<Rightarrow> js_error + bytes" where
  "toEncryptedBuffer L callNo r bulkEncryptionAlgorithm blockEncryptionKey macAlgorithm macSecret =
     (let compressedtext = fragment r in
      bindE
        (if bulkEncryptionAlgorithm = BULK_NULL then Inr ([], compressedtext)
         else
           (let encryptionblockSize = getBulkAlgorithmBlockSize bulkEncryptionAlgorithm;
                randomIV = randomBytes L callNo encryptionblockSize
            in bindE (buildBufferForMacCalculation (epoch r) (sequenceNumber r) (protocolType r)
                        (dtlsVersion r) compressedtext) (\<lambda>bufferForMacCalculation.
               bindE (new_Buffer macSecret) (\<lambda>macSecretAsBuffer.
                 (let macHash = createHmac L ''sha1'' macSecretAsBuffer bufferForMacCalculation;
                      bufferForEncryption = buildBufferForEncryption compressedtext macHash
                        (getBulkAlgorithmBlockSize bulkEncryptionAlgorithm)
                  in bindE (new_Buffer blockEncryptionKey) (\<lambda>key.
                     bindE (cipher L (getBulkAlgorithmAsString bulkEncryptionAlgorithm) key
                              randomIV bufferForEncryption) (\<lambda>ciphertext.
                       Inr (randomIV, ciphertext))))))))
        (\<lambda>(randomIV, ciphertext).
           bindE (writeUInt16BE (dtlsVersion r)) (\<lambda>b_version.
           bindE (writeUInt16BE (epoch r)) (\<lambda>b_epoch.
           bindE (writeUIntBE (sequenceNumber r) 6) (\<lambda>b_seq.
           bindE (writeUInt16BE (length ciphertext + length randomIV)) (\<lambda>b_length.
             Inr ([of_nat (protocolType r)] @ b_version @ b_epoch @ b_seq @ b_length
                    @ randomIV @ ciphertext)))))))"

text \<open>
  The padding loop of \<open>fromEncryptedBuffer\<close>: it walks down from the last byte while
  \<open>iPaddingByte > length - paddingLength - 2\<close> and sets the flag at every byte that
  differs from \<open>paddingLength\<close>, without leaving early.
\<close>

definition paddingLoop :: "bytes \<Rightarrow> nat \<Rightarrow> bool" where
  "paddingLoop compressedtext paddingLength =
     foldl (\<lambda>paddingError iPaddingByte.
              if compressedtext ! iPaddingByte \<noteq> of_nat paddingLength then True
              else paddingError)
       False (rev [length compressedtext - paddingLength - 1..<length compressedtext])"

text \<open>
  The MAC loop: \<open>macHashLength\<close> iterations, each comparing \<open>macHashVerify[i]\<close> with
  \<open>macHash[i]\<close> (\<open>undefined\<close> outside a buffer) and only ever setting the flag.
\<close>

definition macLoop :: "bytes \<Rightarrow> bytes \<Rightarrow> nat \<Rightarrow> bool" where
  "macLoop macHashVerify macHash macHashLength =
     foldl (\<lambda>macHashError iMacHash.
              if Buffer_index macHashVerify (int iMacHash) \<noteq> Buffer_index macHash (int iMacHash)
              then True else macHashError)
       False [0..<macHashLength]"

text \<open>
  The \<open>else\<close> branch of \<open>fromEncryptedBuffer\<close> that decrypts the ciphertext and checks
  padding and MAC. \<open>Inr None\<close> is the \<open>null\<close> it returns, \<open>Inr (Some compressedtext)\<close>
  the fragment left after both checks passed.
\<close>

definition decryptAndVerify ::
  "crypto \<Rightarrow> BulkEncryptionAlgorithm \<Rightarrow> bytes option \<Rightarrow> MacAlgorithm \<Rightarrow> bytes option
     \<Rightarrow> nat \<Rightarrow> nat \<Rightarrow> nat \<Rightarrow> nat \<Rightarrow> bytes \<Rightarrow> bytes \<Rightarrow> js_error + bytes option" where
  "decryptAndVerify L bulkEncryptionAlgorithm blockEncryptionKey macAlgorithm macSecret
       r_epoch r_sequenceNumber r_protocolType r_dtlsVersion randomIV ciphertext =
     bindE (new_Buffer blockEncryptionKey) (\<lambda>key.
     bindE (decipher L (getBulkAlgorithmAsString bulkEncryptionAlgorithm) key randomIV ciphertext)
       (\<lambda>compressedtext.
     if length compressedtext = 0 then Inr None
     else
       (let paddingLength = unat (last compressedtext);
            paddingValueLength = 1;
            paddingError = (if paddingLength + paddingValueLength > length compressedtext
                            then True
                            else paddingLoop compressedtext paddingLength);
            macHashLength = getMacAlgorithmHashSize macAlgorithm;
            macEnd = int (length compressedtext) - int paddingLength - int paddingValueLength;
            macStart = macEnd - int macHashLength;
            compressedtextWithoutMacOrPadding = Buffer_slice compressedtext 0 (of_int macStart);
            macHash = Buffer_slice compressedtext (of_int macStart) (of_int macEnd)
        in
        bindE (buildBufferForMacCalculation r_epoch r_sequenceNumber r_protocolType
                 r_dtlsVersion compressedtextWithoutMacOrPadding) (\<lambda>bufferForMacCalculation.
        bindE (new_Buffer macSecret) (\<lambda>macSecretAsBuffer.
          (let macHashVerify = createHmac L ''sha1'' macSecretAsBuffer bufferForMacCalculation;
               macHashError = macLoop macHashVerify macHash macHashLength
           in if macHashError then Inr None
              else if paddingError then Inr None
              else Inr (Some compressedtextWithoutMacOrPadding)))))))"

text \<open>
  \<open>fromEncryptedBuffer\<close>: \<open>Inr None\<close> is the \<open>null\<close> it returns, \<open>Inr (Some (record,
  bytesConsumed))\<close> the result object. The offset is optional.
\<close>

definition fromEncryptedBuffer ::
  "crypto \<Rightarrow> bytes \<Rightarrow> nat option \<Rightarrow> BulkEncryptionAlgorithm \<Rightarrow> bytes option \<Rightarrow> MacAlgorithm
     \<Rightarrow> bytes option \<Rightarrow> js_error + (DtlsRecord \<times> nat) option" where
  "fromEncryptedBuffer L buffer offset bulkEncryptionAlgorithm blockEncryptionKey macAlgorithm
       macSecret =
     bindE (case offset of None \<Rightarrow> Inr 0
            | Some off \<Rightarrow> if off \<ge> length buffer then Inl RangeError else Inr off)
       (\<lambda>initialOffset.
     if length buffer - initialOffset < HEADER_LENGTH then Inr None
     else
       (let randomIVLength = (if bulkEncryptionAlgorithm \<noteq> BULK_NULL
                               then getBulkAlgorithmBlockSize bulkEncryptionAlgorithm else 0);
            r_protocolType = unat (buffer ! initialOffset)
        in
        bindE (readUInt16BE buffer (initialOffset + 1)) (\<lambda>r_dtlsVersion.
        bindE (readUInt16BE buffer (initialOffset + 3)) (\<lambda>r_epoch.
        bindE (readUIntBE buffer (initialOffset + 5) 6) (\<lambda>r_sequenceNumber.
        bindE (readUInt16BE buffer (initialOffset + 11)) (\<lambda>ciphertextLength0.
        (let currentOffset = initialOffset + 13 in
         if length buffer - currentOffset < ciphertextLength0 then Inr None
         else if \<not> randomIVLength < ciphertextLength0 then Inr None
         else
           (let randomIV = Buffer_alloc_copy randomIVLength buffer currentOffset
                             (currentOffset + randomIVLength);
                currentOffset1 = currentOffset + randomIVLength;
                ciphertextLength = ciphertextLength0 - randomIVLength;
                ciphertext = Buffer_alloc_copy ciphertextLength buffer currentOffset1
                               (currentOffset1 + ciphertextLength);
                currentOffset2 = currentOffset1 + ciphertextLength
            in
            bindE
              (if bulkEncryptionAlgorithm = BULK_NULL \<or> length randomIV = 0
               then Inr (Some ciphertext)
               else decryptAndVerify L bulkEncryptionAlgorithm blockEncryptionKey macAlgorithm
                      macSecret r_epoch r_sequenceNumber r_protocolType r_dtlsVersion
                      randomIV ciphertext)
              (\<lambda>checked.
                 case checked of
                   None \<Rightarrow> Inr None
                 | Some compressedtext \<Rightarrow>
                     Inr (Some (\<lparr>protocolType = r_protocolType, dtlsVersion = r_dtlsVersion,
                                 epoch = r_epoch, sequenceNumber = r_sequenceNumber,
                                 fragment = compressedtext\<rparr>,
                                currentOffset2 - initialOffset)))))))))))"

section \<open>Handshake and record messages\<close>

text \<open>
  An identifier that no enclosing scope declares raises a ReferenceError when it is
  read. \<open>resolve scope name\<close> looks \<open>name\<close> up in the identifiers a function can see.
\<close>

definition resolve :: "string list \<Rightarrow> string \<Rightarrow> js_error + unit" where
  "resolve scope name = (if name \<in> set scope then Inr () else Inl ReferenceError)"

text \<open>What every module of the program can see: Node's module wrapper and the globals used.\<close>

definition module_scope :: "string list" where
  "module_scope = [''exports'', ''require'', ''module'', ''__filename'', ''__dirname'',
     ''enums'', ''Buffer'', ''Object'', ''Array'', ''Math'', ''TypeError'', ''RangeError'']"

text \<open>\<open>Buffer.compare(a, b)\<close>: the three-way lexicographic order of the bytes.\<close>

fun Buffer_compare :: "bytes \<Rightarrow> bytes \<Rightarrow> int" where
  "Buffer_compare [] [] = 0"
| "Buffer_compare [] (y # ys) = -1"
| "Buffer_compare (x # xs) [] = 1"
| "Buffer_compare (x # xs) (y # ys) =
     (if x < y then -1 else if y < x then 1 else Buffer_compare xs ys)"

subsection \<open>enums.js, continued\<close>

definition MessageType_ClientHello :: nat where "MessageType_ClientHello = 0x01"
definition MessageType_ServerHello :: nat where "MessageType_ServerHello = 0x02"
definition MessageType_HelloVerifyRequest :: nat where "MessageType_HelloVerifyRequest = 0x03"
definition MessageType_ServerHelloDone :: nat where "MessageType_ServerHelloDone = 0x0e"
definition MessageType_ClientKeyExchange :: nat where "MessageType_ClientKeyExchange = 0x10"
definition MessageType_Finished :: nat where "MessageType_Finished = 0x14"

definition isMessageTypeValid :: "nat \<Rightarrow> bool" where
  "isMessageTypeValid t = (t = 0x01 \<or> t = 0x02 \<or> t = 0x03 \<or> t = 0x0e \<or> t = 0x10 \<or> t = 0x14)"

definition TLS_PSK_WITH_AES_128_CBC_SHA :: nat where "TLS_PSK_WITH_AES_128_CBC_SHA = 0x008C"
definition TLS_PSK_WITH_AES_256_CBC_SHA :: nat where "TLS_PSK_WITH_AES_256_CBC_SHA = 0x008D"

definition CompressionMethod_NULL :: nat where "CompressionMethod_NULL = 0x00"

definition ChangeCipherSpecType_One :: nat where "ChangeCipherSpecType_One = 0x01"

definition isChangeCipherSpecTypeValid :: "nat \<Rightarrow> bool" where
  "isChangeCipherSpecTypeValid t = (t = 0x01)"

definition isAlertLevelValid :: "nat \<Rightarrow> bool" where
  "isAlertLevelValid l = (l = 1 \<or> l = 2)"

definition AlertDescription_CloseNotify :: nat where "AlertDescription_CloseNotify = 0"

definition isAlertDescriptionValid :: "nat \<Rightarrow> bool" where
  "isAlertDescriptionValid d = (d = 0 \<or> d = 20)"

definition SessionState_ClientHelloSent :: "nat option" where "SessionState_ClientHelloSent = Some 1"
definition SessionState_FinishedSent :: "nat option" where "SessionState_FinishedSent = Some 2"
definition SessionState_Connected :: "nat option" where "SessionState_Connected = None"

text \<open>
  The members of the module's \<open>exports\<close>, and a call \<open>this.name(...)\<close> of one of them:
  a member that \<open>exports\<close> does not have is \<open>undefined\<close>, and calling it, or reading a
  property of it, throws a TypeError.
\<close>

definition enums_exports :: "string list" where
  "enums_exports =
     [''DtlsVersion'', ''isDtlsVersionValid'', ''CipherSuite'', ''isCipherSuiteValid'',
      ''isCipherSuiteNull'', ''KeyExchangeAlgorithm'', ''isKeyExchangeAlgorithmValid'',
      ''BulkEncryptionAlgorithm'', ''isBulkEncryptionAlgorithmValid'',
      ''getBulkAlgorithmKeySize'', ''getBulkAlgorithmBlockSize'', ''getBulkAlgorithmAsString'',
      ''MacAlgorithm'', ''isMacAlgorithmValid'', ''getMacAlgorithmHashSize'',
      ''CompressionMethod'', ''isCompressionMethodValid'', ''SessionState'', ''ProtocolType'',
      ''isProtocolTypeValid'', ''getMaximumCookieLength'', ''ChangeCipherSpecType'',
      ''isChangeCipherSpecTypeValid'', ''MessageType'', ''isMessageTypeValid'', ''AlertLevel'',
      ''isAlertLevelValid'', ''AlertDescription'', ''isAlertDescriptionValid'',
      ''isAlertFatal'']"

definition enums_member :: "string list \<Rightarrow> string \<Rightarrow> js_error + unit" where
  "enums_member members name = (if name \<in> set members then Inr () else Inl TypeError)"

text \<open>
  \<open>getMaximumCookieLength\<close> starts with \<open>this.isVersionValid(version)\<close> and compares the
  version with \<open>this.VersionOption.DTLS_1_0\<close>; the module exports \<open>isDtlsVersionValid\<close> and
  \<open>DtlsVersion\<close>, and neither of the two names the function uses.
\<close>

definition MAX_DTLS_10_COOKIE_LENGTH :: nat where "MAX_DTLS_10_COOKIE_LENGTH = 32"

definition getMaximumCookieLength :: "nat \<Rightarrow> js_error + nat" where
  "getMaximumCookieLength version =
     bindE (enums_member enums_exports ''isVersionValid'') (\<lambda>_.
     bindE (enums_member enums_exports ''VersionOption'') (\<lambda>_.
       Inr MAX_DTLS_10_COOKIE_LENGTH))"

subsection \<open>messages/DtlsHandshakeMessage.js\<close>

record DtlsHandshakeRecord =
  messageType :: nat
  length_field :: nat
  messageSequence :: nat
  fragmentOffset :: nat
  fragmentLength :: nat
  message :: bytes

definition createFromMessageBuffer ::
  "nat \<Rightarrow> nat \<Rightarrow> nat \<Rightarrow> nat \<Rightarrow> nat \<Rightarrow> bytes \<Rightarrow> js_error + DtlsHandshakeRecord" where
  "createFromMessageBuffer type len msgSeq fragOffset fragLength messageBuffer =
     (if \<not> isMessageTypeValid type then Inl RangeError
      else if len > 2 ^ 24 - 1 then Inl RangeError
      else if msgSeq > 2 ^ 16 - 1 then Inl RangeError
      else if fragOffset > 2 ^ 24 - 1 then Inl RangeError
      else if fragLength > 2 ^ 24 - 1 then Inl RangeError
      else if length messageBuffer > 2 ^ 24 - 1 then Inl RangeError
      else if length messageBuffer < fragLength then Inl RangeError
      else if len < fragOffset + fragLength then Inl RangeError
      else Inr \<lparr>messageType = type, length_field = len, messageSequence = msgSeq,
                fragmentOffset = fragOffset, fragmentLength = fragLength,
                message = messageBuffer\<rparr>)"

text \<open>
  The \<open>fromBuffer\<close> functions are modelled as the program calls them, without the
  optional offset (parsing starts at 0); \<open>None\<close> is the \<open>null\<close> they return.
\<close>

definition DtlsHandshakeMessage_fromBuffer ::
  "bytes \<Rightarrow> js_error + (DtlsHandshakeRecord \<times> nat) option" where
  "DtlsHandshakeMessage_fromBuffer buffer =
     (if length buffer < 12 then Inr None
      else
        bindE (readUIntBE buffer 1 3) (\<lambda>len.
        bindE (readUInt16BE buffer 4) (\<lambda>msgSeq.
        bindE (readUIntBE buffer 6 3) (\<lambda>fragOffset.
        bindE (readUIntBE buffer 9 3) (\<lambda>fragLength.
          if length buffer - 12 < fragLength then Inr None
          else Inr (Some (\<lparr>messageType = unat (buffer ! 0), length_field = len,
                            messageSequence = msgSeq, fragmentOffset = fragOffset,
                            fragmentLength = fragLength,
                            message = Buffer_alloc_copy fragLength buffer 12 (12 + fragLength)\<rparr>,
                          12 + fragLength)))))))"

definition DtlsHandshakeMessage_toBuffer :: "DtlsHandshakeRecord \<Rightarrow> js_error + bytes" where
  "DtlsHandshakeMessage_toBuffer m =
     bindE (writeUIntBE (length_field m) 3) (\<lambda>b_length.
     bindE (writeUInt16BE (messageSequence m)) (\<lambda>b_seq.
     bindE (writeUIntBE (fragmentOffset m) 3) (\<lambda>b_fragOffset.
     bindE (writeUIntBE (fragmentLength m) 3) (\<lambda>b_fragLength.
       Inr ([of_nat (messageType m)] @ b_length @ b_seq @ b_fragOffset @ b_fragLength
              @ message m)))))"

subsection \<open>messages/handshake/ClientHelloMessage.js\<close>

record ClientHelloMessage =
  ch_dtlsVersion :: nat
  ch_random :: bytes
  ch_sessionId :: "nat list option"
  ch_cookie :: "bytes option"
  ch_cipherSuites :: "nat list"
  ch_compressionMethods :: "nat list"

text \<open>
  What \<open>create\<close> can see: its six parameters, the module's constants and the module
  scope. The bound of the cookie is written
  \<open>cookie.length > enums.getMaximumCookieLength(version)\<close>, and the argument \<open>version\<close> is
  resolved before the call.
\<close>

definition ClientHelloMessage_create_scope :: "string list" where
  "ClientHelloMessage_create_scope =
     [''dtlsVersion'', ''random'', ''sessionId'', ''cookie'', ''cipherSuites'',
      ''compressionMethods'', ''result'', ''RANDOM_LENGTH'', ''MAX_SESSION_ID_LENGTH'',
      ''ClientHelloMessage''] @ module_scope"

definition ClientHelloMessage_create ::
  "nat \<Rightarrow> bytes option \<Rightarrow> nat list option \<Rightarrow> bytes option \<Rightarrow> nat list \<Rightarrow> nat list
     \<Rightarrow> js_error + ClientHelloMessage" where
  "ClientHelloMessage_create version random sessionId cookie cipherSuites compressionMethods =
     (if \<not> isDtlsVersionValid version then Inl RangeError
      else case random of
        None \<Rightarrow> Inl TypeError
      | Some rnd \<Rightarrow>
          if length rnd \<noteq> 32 then Inl RangeError
          else if (case sessionId of None \<Rightarrow> False | Some sid \<Rightarrow> length sid > 2 ^ 8 - 1)
          then Inl RangeError
          else
            bindE (case cookie of
                     None \<Rightarrow> Inr ()
                   | Some c \<Rightarrow>
                       bindE (resolve ClientHelloMessage_create_scope ''version'') (\<lambda>_.
                       bindE (getMaximumCookieLength version) (\<lambda>maxLen.
                         if length c > maxLen then Inl RangeError else Inr ())))
              (\<lambda>_. if length compressionMethods = 0 then Inl RangeError
                    else Inr \<lparr>ch_dtlsVersion = version, ch_random = rnd,
                              ch_sessionId = sessionId, ch_cookie = cookie,
                              ch_cipherSuites = cipherSuites,
                              ch_compressionMethods = compressionMethods\<rparr>))"

text \<open>
  \<open>toBuffer\<close>. With a session id the size is computed from \<open>this.sessionId.Length\<close>,
  which is \<open>undefined\<close>, and \<open>Buffer.alloc(NaN)\<close> throws a RangeError.
\<close>

fun writeCipherSuites :: "nat list \<Rightarrow> js_error + bytes" where
  "writeCipherSuites [] = Inr []"
| "writeCipherSuites (c # cs) =
     bindE (writeUInt16BE c) (\<lambda>b. bindE (writeCipherSuites cs) (\<lambda>bs. Inr (b @ bs)))"

definition ClientHelloMessage_toBuffer :: "ClientHelloMessage \<Rightarrow> js_error + bytes" where
  "ClientHelloMessage_toBuffer m =
     (case ch_sessionId m of
        Some sid \<Rightarrow> Inl RangeError
      | None \<Rightarrow>
          bindE (writeUInt16BE (ch_dtlsVersion m)) (\<lambda>b_version.
          bindE (writeUInt16BE (length (ch_cipherSuites m) * 2)) (\<lambda>b_suitesLength.
          bindE (writeCipherSuites (ch_cipherSuites m)) (\<lambda>b_suites.
            Inr (b_version @ ch_random m @ [0]
                 @ (case ch_cookie m of None \<Rightarrow> [0] | Some c \<Rightarrow> [of_nat (length c)] @ c)
                 @ b_suitesLength @ b_suites
                 @ [of_nat (length (ch_compressionMethods m))]
                 @ map of_nat (ch_compressionMethods m))))))"

subsection \<open>The messages the session parses\<close>

text \<open>
  \<open>HelloVerifyRequestMessage.fromBuffer\<close> as the session's tree has it: the version is
  read little-endian, and the cookie is always a buffer, of length 0 when the message
  carries none.
\<close>

record HelloVerifyRequestMessage =
  hvr_dtlsVersion :: nat
  hvr_cookie :: bytes

definition HelloVerifyRequestMessage_fromBuffer ::
  "bytes \<Rightarrow> js_error + (HelloVerifyRequestMessage \<times> nat) option" where
  "HelloVerifyRequestMessage_fromBuffer buffer =
     (if length buffer < 3 then Inr None
      else
        (let version = uintBE (rev (take 2 buffer));
             cookieLength = unat (buffer ! 2)
         in if length buffer - 3 < cookieLength then Inr None
            else Inr (Some (\<lparr>hvr_dtlsVersion = version,
                              hvr_cookie = Buffer_alloc_copy cookieLength buffer 3
                                             (3 + cookieLength)\<rparr>,
                            3 + cookieLength))))"

text \<open>
  \<open>ServerHelloMessage.fromBuffer\<close>. Its second length check subtracts the omitted
  \<open>offset\<close>, so it compares with \<open>NaN\<close> and never fires; the reads behind it can leave
  the buffer: \<open>readUInt16BE\<close> throws, an indexed read gives \<open>undefined\<close>.
\<close>

record ServerHelloMessage =
  sh_dtlsVersion :: nat
  sh_random :: bytes
  sh_sessionId :: bytes
  sh_cipherSuite :: nat
  sh_compressionMethod :: "nat option"

definition ServerHelloMessage_fromBuffer ::
  "bytes \<Rightarrow> js_error + (ServerHelloMessage \<times> nat) option" where
  "ServerHelloMessage_fromBuffer buffer =
     (if length buffer < 40 then Inr None
      else
        bindE (readUInt16BE buffer 0) (\<lambda>version.
        (let random = Buffer_alloc_copy 32 buffer 2 (2 + 32);
             sessionIdLength = unat (buffer ! 34);
             sessionId = Buffer_alloc_copy sessionIdLength buffer 35 (35 + sessionIdLength)
         in bindE (readUInt16BE buffer (35 + sessionIdLength)) (\<lambda>cipherSuite.
              Inr (Some (\<lparr>sh_dtlsVersion = version, sh_random = random,
                           sh_sessionId = sessionId, sh_cipherSuite = cipherSuite,
                           sh_compressionMethod =
                             map_option unat
                               (Buffer_index buffer (int (35 + sessionIdLength + 2)))\<rparr>,
                         35 + sessionIdLength + 3))))))"

text \<open>\<open>ServerHelloDoneMessage.fromBuffer\<close>: nothing to parse, nothing consumed.\<close>

definition ServerHelloDoneMessage_fromBuffer :: "bytes \<Rightarrow> js_error + (unit \<times> nat) option" where
  "ServerHelloDoneMessage_fromBuffer buffer = Inr (Some ((), 0))"

text \<open>\<open>PskClientKeyExchangeMessage\<close>: a \<open>null\<close> identity is accepted and written as empty.\<close>

definition PskClientKeyExchangeMessage_create :: "bytes option \<Rightarrow> js_error + bytes option" where
  "PskClientKeyExchangeMessage_create identity = Inr identity"

definition PskClientKeyExchangeMessage_toBuffer :: "bytes option \<Rightarrow> js_error + bytes" where
  "PskClientKeyExchangeMessage_toBuffer identity =
     (case identity of
        None \<Rightarrow> bindE (writeUInt16BE 0) (\<lambda>b. Inr b)
      | Some i \<Rightarrow> bindE (writeUInt16BE (length i)) (\<lambda>b. Inr (b @ i)))"

text \<open>\<open>FinishedMessage\<close>: twelve bytes of verify data.\<close>

definition VERIFY_DATA_LENGTH :: nat where "VERIFY_DATA_LENGTH = 12"

definition FinishedMessage_create :: "bytes \<Rightarrow> js_error + bytes" where
  "FinishedMessage_create verifyData =
     (if length verifyData \<noteq> VERIFY_DATA_LENGTH then Inl RangeError else Inr verifyData)"

definition FinishedMessage_toBuffer :: "bytes \<Rightarrow> js_error + bytes" where
  "FinishedMessage_toBuffer verifyData =
     Inr (take VERIFY_DATA_LENGTH (verifyData @ replicate VERIFY_DATA_LENGTH 0))"

definition FinishedMessage_fromBuffer :: "bytes \<Rightarrow> js_error + (bytes \<times> nat) option" where
  "FinishedMessage_fromBuffer buffer =
     (if length buffer < 12 then Inr None
      else Inr (Some (Buffer_alloc_copy VERIFY_DATA_LENGTH buffer 0 VERIFY_DATA_LENGTH,
                      VERIFY_DATA_LENGTH)))"

text \<open>\<open>DtlsChangeCipherSpecMessage\<close>: one byte, the type.\<close>

definition DtlsChangeCipherSpecMessage_create :: "nat \<Rightarrow> js_error + nat" where
  "DtlsChangeCipherSpecMessage_create type =
     (if \<not> isChangeCipherSpecTypeValid type then Inl RangeError else Inr type)"

definition DtlsChangeCipherSpecMessage_toBuffer :: "nat \<Rightarrow> js_error + bytes" where
  "DtlsChangeCipherSpecMessage_toBuffer type = Inr [of_nat type]"

definition DtlsChangeCipherSpecMessage_fromBuffer :: "bytes \<Rightarrow> js_error + (nat \<times> nat) option" where
  "DtlsChangeCipherSpecMessage_fromBuffer buffer =
     (if length buffer < 1 then Inr None else Inr (Some (unat (buffer ! 0), 1)))"

text \<open>
  \<open>DtlsAlertMessage\<close>. \<open>toBuffer\<close> allocates \<open>result\<close> and then executes
  \<open>buffer[offset] = level\<close> and \<open>buffer[offset] = description\<close>: it reads the identifiers
  \<open>buffer\<close>, \<open>level\<close> and \<open>description\<close>, none of which it declares (the fields are
  \<open>this.level\<close> and \<open>this.description\<close>).
\<close>

record DtlsAlertMessage =
  level :: nat
  description :: nat

definition DtlsAlertMessage_create :: "nat \<Rightarrow> nat \<Rightarrow> js_error + DtlsAlertMessage" where
  "DtlsAlertMessage_create lvl descr =
     (if \<not> isAlertLevelValid lvl then Inl RangeError
      else if \<not> isAlertDescriptionValid descr then Inl RangeError
      else Inr \<lparr>level = lvl, description = descr\<rparr>)"

definition DtlsAlertMessage_fromBuffer ::
  "bytes \<Rightarrow> js_error + (DtlsAlertMessage \<times> nat) option" where
  "DtlsAlertMessage_fromBuffer buffer =
     (if length buffer < 2 then Inr None
      else Inr (Some (\<lparr>level = unat (buffer ! 0), description = unat (buffer ! 1)\<rparr>, 2)))"

definition DtlsAlertMessage_toBuffer_scope :: "string list" where
  "DtlsAlertMessage_toBuffer_scope =
     [''result'', ''offset'', ''MIN_LENGTH'', ''MAX_LENGTH'', ''DtlsAlertMessage''] @ module_scope"

definition DtlsAlertMessage_toBuffer :: "DtlsAlertMessage \<Rightarrow> js_error + bytes" where
  "DtlsAlertMessage_toBuffer m =
     (let result = replicate 2 (0 :: byte) in
      bindE (resolve DtlsAlertMessage_toBuffer_scope ''buffer'') (\<lambda>_.
      bindE (resolve DtlsAlertMessage_toBuffer_scope ''level'') (\<lambda>_.
      bindE (resolve DtlsAlertMessage_toBuffer_scope ''buffer'') (\<lambda>_.
      bindE (resolve DtlsAlertMessage_toBuffer_scope ''description'') (\<lambda>_.
        Inr result)))))"

text \<open>\<open>DtlsApplicationDataMessage\<close>: the data is the whole buffer.\<close>

definition DtlsApplicationDataMessage_create :: "bytes \<Rightarrow> js_error + bytes" where
  "DtlsApplicationDataMessage_create data = Inr data"

definition DtlsApplicationDataMessage_toBuffer :: "bytes \<Rightarrow> js_error + bytes" where
  "DtlsApplicationDataMessage_toBuffer data = Inr data"

definition DtlsApplicationDataMessage_fromBuffer :: "bytes \<Rightarrow> js_error + (bytes \<times> nat) option" where
  "DtlsApplicationDataMessage_fromBuffer buffer =
     Inr (Some (Buffer_alloc_copy (length buffer) buffer 0 (length buffer), length buffer))"

section \<open>DtlsSession.js\<close>

record DtlsConnectionState =
  bulkEncryptionAlgorithm :: BulkEncryptionAlgorithm
  compressionMethod :: nat
  macAlgorithm :: MacAlgorithm

text \<open>
  SecurityParameters.js is not among the sources. Its object is taken as the fields the
  session reads and writes; a buffer that has not been stored yet is \<open>None\<close>.
\<close>

record SecurityParameters =
  clientRandom :: "bytes option"
  serverRandom :: "bytes option"
  masterSecret :: "bytes option"
  sp_bulkEncryptionAlgorithm :: BulkEncryptionAlgorithm
  sp_compressionMethod :: nat
  sp_macAlgorithm :: MacAlgorithm
  clientWriteMacSecret :: "bytes option"
  serverWriteMacSecret :: "bytes option"
  clientWriteKey :: "bytes option"
  serverWriteKey :: "bytes option"

text \<open>
  What the session does to the outside, in order: a datagram handed to \<open>socket.send\<close>
  and the three callbacks.
\<close>

datatype event =
    Sent bytes
  | ConnectCallback
  | DisconnectCallback
  | MessageCallback bytes

text \<open>
  The session object after \<open>connect\<close>. The connect listener is \<open>null\<close> (\<open>None\<close>) or the
  closure \<open>DtlsSocket.send\<close> installs, which hands its message to
  \<open>sendApplicationData\<close>; the other two listeners do not touch the session, so only
  their presence matters. \<open>events\<close> collects the effects and \<open>randomCalls\<close> counts the
  calls of \<open>crypto.randomBytes\<close>.
\<close>

record DtlsSession =
  connectListener :: "bytes option"
  disconnectListener :: bool
  messageListener :: bool
  pskIdentity :: "bytes option"
  pskPassword :: "bytes option"
  sessionId :: "nat list option"
  nextOutgoingEpoch :: nat
  nextOutgoingSequenceNumber :: nat
  currentReadState :: DtlsConnectionState
  currentWriteState :: DtlsConnectionState
  securityParameters :: SecurityParameters
  handshakeMessageSequence :: nat
  allHandshakeMessagesAsBuffer :: bytes
  sessionState :: "nat option"
  messageQueue :: "bytes list"
  events :: "event list"
  randomCalls :: nat

definition supportedCipherSuites :: "nat list" where
  "supportedCipherSuites = [TLS_PSK_WITH_AES_256_CBC_SHA, TLS_PSK_WITH_AES_128_CBC_SHA]"

definition supportedCompressionMethods :: "nat list" where
  "supportedCompressionMethods = [CompressionMethod_NULL]"

text \<open>
  How a piece of the session's code ends: it falls through (\<open>Normal\<close>, the \<open>break\<close> of a
  \<open>case\<close>), it executes \<open>return\<close>, it throws, or it does not come back.
\<close>

datatype flow = Normal | Return | Threw js_error | Diverged

text \<open>Continue with the value of a step, or stop with its exception in the state reached.\<close>

definition tryE :: "js_error + 'a \<Rightarrow> DtlsSession \<Rightarrow> ('a \<Rightarrow> flow \<times> DtlsSession) \<Rightarrow> flow \<times> DtlsSession" where
  "tryE m s k = (case m of Inl e \<Rightarrow> (Threw e, s) | Inr v \<Rightarrow> k v)"

text \<open>Read a field of the object a \<open>fromBuffer\<close> returned: a TypeError when it is \<open>null\<close>.\<close>

definition fieldOf :: "js_error + ('a \<times> nat) option \<Rightarrow> js_error + 'a" where
  "fieldOf r = bindE r (\<lambda>res. case res of None \<Rightarrow> Inl TypeError | Some (v, n) \<Rightarrow> Inr v)"

text \<open>\<open>Buffer.concat\<close> of two buffers, one of which may be \<open>null\<close>.\<close>

definition Buffer_concat2 :: "bytes option \<Rightarrow> bytes option \<Rightarrow> js_error + bytes" where
  "Buffer_concat2 a b =
     (case a of None \<Rightarrow> Inl TypeError
      | Some x \<Rightarrow> (case b of None \<Rightarrow> Inl TypeError | Some y \<Rightarrow> Inr (x @ y)))"

text \<open>
  The two statements that precede every \<open>socket.send\<close>:
  \<open>DtlsRecord.createFromPlaintext(type, DTLS_1_0, nextOutgoingEpoch,
  nextOutgoingSequenceNumber, payload)\<close>, and \<open>toEncryptedBuffer\<close> under the current write
  state with the client write key and MAC secret.
\<close>

definition newRecord :: "DtlsSession \<Rightarrow> nat \<Rightarrow> bytes \<Rightarrow> js_error + DtlsRecord" where
  "newRecord s type payload =
     createFromPlaintext type DTLS_1_0 (nextOutgoingEpoch s) (nextOutgoingSequenceNumber s)
       payload"

definition encryptForSend :: "crypto \<Rightarrow> DtlsSession \<Rightarrow> DtlsRecord \<Rightarrow> js_error + bytes" where
  "encryptForSend L s dtlsRecord =
     toEncryptedBuffer L (randomCalls s) dtlsRecord
       (bulkEncryptionAlgorithm (currentWriteState s))
       (clientWriteKey (securityParameters s))
       (macAlgorithm (currentWriteState s))
       (clientWriteMacSecret (securityParameters s))"

text \<open>\<open>toEncryptedBuffer\<close> draws an IV unless the bulk algorithm is NULL.\<close>

definition ivDrawn :: "DtlsSession \<Rightarrow> DtlsSession" where
  "ivDrawn s =
     (if bulkEncryptionAlgorithm (currentWriteState s) = BULK_NULL then s
      else s\<lparr>randomCalls := randomCalls s + 1\<rparr>)"

definition incrementNextOutgoingSequenceNumber :: "DtlsSession \<Rightarrow> DtlsSession" where
  "incrementNextOutgoingSequenceNumber s =
     s\<lparr>nextOutgoingSequenceNumber := nextOutgoingSequenceNumber s + 1\<rparr>"

definition incrementNextOutgoingEpoch :: "DtlsSession \<Rightarrow> DtlsSession" where
  "incrementNextOutgoingEpoch s =
     s\<lparr>nextOutgoingEpoch := nextOutgoingEpoch s + 1, nextOutgoingSequenceNumber := 0\<rparr>"

definition socket_send :: "bytes \<Rightarrow> DtlsSession \<Rightarrow> DtlsSession" where
  "socket_send datagram s = s\<lparr>events := events s @ [Sent datagram]\<rparr>"

definition sendApplicationData :: "crypto \<Rightarrow> bytes \<Rightarrow> DtlsSession \<Rightarrow> flow \<times> DtlsSession" where
  "sendApplicationData L data s =
     (if sessionState s \<noteq> SessionState_Connected
      then (Normal, s\<lparr>messageQueue := messageQueue s @ [data]\<rparr>)
      else
        tryE (DtlsApplicationDataMessage_create data) s (\<lambda>dtlsApplicationDataMessage.
        tryE (DtlsApplicationDataMessage_toBuffer dtlsApplicationDataMessage) s
          (\<lambda>dtlsApplicationDataMessageAsBuffer.
        tryE (newRecord s DtlsApplicationDataProtocol dtlsApplicationDataMessageAsBuffer) s
          (\<lambda>dtlsRecord.
        tryE (encryptForSend L s dtlsRecord) (ivDrawn s) (\<lambda>dtlsRecordAsBuffer.
          (Normal, socket_send dtlsRecordAsBuffer
                     (incrementNextOutgoingSequenceNumber (ivDrawn s))))))))"

text \<open>
  A call of \<open>CryptoUtils.PRF\<close>: a \<open>null\<close> secret throws at \<open>secret.length\<close>, and a
  \<open>P_hash\<close> loop that never ends never comes back.
\<close>

definition tryPRF ::
  "crypto \<Rightarrow> bytes option \<Rightarrow> string \<Rightarrow> bytes \<Rightarrow> nat \<Rightarrow> DtlsSession
     \<Rightarrow> (bytes \<Rightarrow> flow \<times> DtlsSession) \<Rightarrow> flow \<times> DtlsSession" where
  "tryPRF L secret label seed outputLength s k =
     (case secret of
        None \<Rightarrow> (Threw TypeError, s)
      | Some sec \<Rightarrow>
          (case PRF L sec label seed outputLength of
             None \<Rightarrow> (Diverged, s)
           | Some out \<Rightarrow> k out))"

text \<open>\<open>case enums.MessageType.HelloVerifyRequest\<close> of \<open>onSocketMessage\<close>.\<close>

definition onHelloVerifyRequest ::
  "crypto \<Rightarrow> DtlsHandshakeRecord \<Rightarrow> DtlsSession \<Rightarrow> flow \<times> DtlsSession" where
  "onHelloVerifyRequest L dtlsHandshakeMessage s =
     tryE (fieldOf (HelloVerifyRequestMessage_fromBuffer (message dtlsHandshakeMessage))) s
       (\<lambda>helloVerifyRequestMessage.
     (let s1 = s\<lparr>allHandshakeMessagesAsBuffer := []\<rparr>;
          cookie = hvr_cookie helloVerifyRequestMessage;
          s2 = s1\<lparr>handshakeMessageSequence := 0\<rparr>
      in
      tryE (ClientHelloMessage_create DTLS_1_0 (clientRandom (securityParameters s2))
              (sessionId s2) (Some cookie) supportedCipherSuites supportedCompressionMethods) s2
        (\<lambda>clientHelloMessage.
      tryE (ClientHelloMessage_toBuffer clientHelloMessage) s2 (\<lambda>clientHelloMessageAsBuffer.
      tryE (createFromMessageBuffer MessageType_ClientHello (length clientHelloMessageAsBuffer)
              (handshakeMessageSequence s2) 0 (length clientHelloMessageAsBuffer)
              clientHelloMessageAsBuffer) s2 (\<lambda>handshakeMessage.
      tryE (DtlsHandshakeMessage_toBuffer handshakeMessage) s2 (\<lambda>handshakeMessageAsBuffer.
      (let s3 = s2\<lparr>handshakeMessageSequence := handshakeMessageSequence s2 + 1\<rparr>;
           s4 = s3\<lparr>allHandshakeMessagesAsBuffer :=
                      allHandshakeMessagesAsBuffer s3 @ handshakeMessageAsBuffer\<rparr>
       in
       tryE (newRecord s4 DtlsHandshakeProtocol handshakeMessageAsBuffer) s4 (\<lambda>dtlsRecord.
       tryE (encryptForSend L s4 dtlsRecord) (ivDrawn s4) (\<lambda>dtlsRecordAsBuffer.
       (let s5 = incrementNextOutgoingSequenceNumber (ivDrawn s4);
            s6 = s5\<lparr>sessionState := SessionState_ClientHelloSent\<rparr>
        in (Normal, socket_send dtlsRecordAsBuffer s6)))))))))))"

text \<open>\<open>case enums.MessageType.ServerHello\<close>.\<close>

definition onServerHello ::
  "crypto \<Rightarrow> DtlsHandshakeRecord \<Rightarrow> DtlsSession \<Rightarrow> flow \<times> DtlsSession" where
  "onServerHello L dtlsHandshakeMessage s =
     tryE (fieldOf (ServerHelloMessage_fromBuffer (message dtlsHandshakeMessage))) s
       (\<lambda>serverHelloMessage.
     tryE (DtlsHandshakeMessage_toBuffer dtlsHandshakeMessage) s (\<lambda>asBuffer.
     (let s1 = s\<lparr>allHandshakeMessagesAsBuffer := allHandshakeMessagesAsBuffer s @ asBuffer\<rparr>;
          s2 = s1\<lparr>securityParameters := (securityParameters s1)
                      \<lparr>serverRandom := Some (sh_random serverHelloMessage)\<rparr>\<rparr>
      in
      if sh_cipherSuite serverHelloMessage \<noteq> TLS_PSK_WITH_AES_128_CBC_SHA
         \<and> sh_cipherSuite serverHelloMessage \<noteq> TLS_PSK_WITH_AES_256_CBC_SHA
      then (Return, s2)
      else
        (let s3 = s2\<lparr>securityParameters := (securityParameters s2)
                        \<lparr>sp_bulkEncryptionAlgorithm :=
                           (if sh_cipherSuite serverHelloMessage = TLS_PSK_WITH_AES_128_CBC_SHA
                            then AES_128_CBC else AES_256_CBC),
                         sp_macAlgorithm := SHA1\<rparr>\<rparr>
         in
         if sh_compressionMethod serverHelloMessage \<noteq> Some CompressionMethod_NULL
         then (Return, s3)
         else (Normal, s3\<lparr>securityParameters := (securityParameters s3)
                              \<lparr>sp_compressionMethod := CompressionMethod_NULL\<rparr>\<rparr>)))))"

text \<open>\<open>case enums.MessageType.ServerHelloDone\<close>: the client's second flight.\<close>

definition onServerHelloDone ::
  "crypto \<Rightarrow> DtlsHandshakeRecord \<Rightarrow> DtlsSession \<Rightarrow> flow \<times> DtlsSession" where
  "onServerHelloDone L dtlsHandshakeMessage s =
     tryE (fieldOf (ServerHelloDoneMessage_fromBuffer (message dtlsHandshakeMessage))) s
       (\<lambda>serverHelloDoneMessage.
     tryE (DtlsHandshakeMessage_toBuffer dtlsHandshakeMessage) s (\<lambda>asBuffer.
     (let s1 = s\<lparr>allHandshakeMessagesAsBuffer := allHandshakeMessagesAsBuffer s @ asBuffer\<rparr> in
      tryE (PskClientKeyExchangeMessage_create (pskIdentity s1)) s1
        (\<lambda>pskClientKeyExchangeMessage.
      tryE (PskClientKeyExchangeMessage_toBuffer pskClientKeyExchangeMessage) s1
        (\<lambda>pskClientKeyExchangeMessageAsBuffer.
      tryE (createFromMessageBuffer MessageType_ClientKeyExchange
              (length pskClientKeyExchangeMessageAsBuffer) (handshakeMessageSequence s1) 0
              (length pskClientKeyExchangeMessageAsBuffer) pskClientKeyExchangeMessageAsBuffer) s1
        (\<lambda>handshakeMessage.
      tryE (DtlsHandshakeMessage_toBuffer handshakeMessage) s1 (\<lambda>handshakeMessageAsBuffer.
      (let s2 = s1\<lparr>handshakeMessageSequence := handshakeMessageSequence s1 + 1\<rparr>;
           s3 = s2\<lparr>allHandshakeMessagesAsBuffer :=
                      allHandshakeMessagesAsBuffer s2 @ handshakeMessageAsBuffer\<rparr>
       in
       tryE (newRecord s3 DtlsHandshakeProtocol handshakeMessageAsBuffer) s3 (\<lambda>dtlsRecord.
       tryE (encryptForSend L s3 dtlsRecord) (ivDrawn s3) (\<lambda>dtlsRecordAsBuffer.
       (let s4 = socket_send dtlsRecordAsBuffer
                   (incrementNextOutgoingSequenceNumber (ivDrawn s3))
        in
        tryE (createPremasterSecret_FromPresharedKey (pskPassword s4)) s4 (\<lambda>premasterSecret.
        tryE (Buffer_concat2 (clientRandom (securityParameters s4))
                (serverRandom (securityParameters s4))) s4 (\<lambda>masterSeed.
        tryPRF L (Some premasterSecret) ''master secret'' masterSeed 48 s4 (\<lambda>master.
        (let s5 = s4\<lparr>securityParameters := (securityParameters s4)
                        \<lparr>masterSecret := Some master\<rparr>\<rparr>;
             s6 = s5\<lparr>randomCalls := randomCalls s5 + 1\<rparr>;
             clientWriteMacSecretLength =
               getMacAlgorithmHashSize (sp_macAlgorithm (securityParameters s6));
             serverWriteMacSecretLength =
               getMacAlgorithmHashSize (sp_macAlgorithm (securityParameters s6));
             clientWriteKeyLength =
               getBulkAlgorithmKeySize (sp_bulkEncryptionAlgorithm (securityParameters s6));
             serverWriteKeyLength =
               getBulkAlgorithmKeySize (sp_bulkEncryptionAlgorithm (securityParameters s6));
             keyBlockRequiredLength = clientWriteMacSecretLength + serverWriteMacSecretLength
               + clientWriteKeyLength + serverWriteKeyLength
         in
         tryE (Buffer_concat2 (serverRandom (securityParameters s6))
                 (clientRandom (securityParameters s6))) s6 (\<lambda>keySeed.
         tryPRF L (masterSecret (securityParameters s6)) ''key expansion'' keySeed
           keyBlockRequiredLength s6 (\<lambda>keyBlockAsBuffer.
         (let o1 = clientWriteMacSecretLength;
              o2 = o1 + serverWriteMacSecretLength;
              o3 = o2 + clientWriteKeyLength;
              s7 = s6\<lparr>securityParameters := (securityParameters s6)
                        \<lparr>clientWriteMacSecret :=
                           Some (Buffer_alloc_copy clientWriteMacSecretLength keyBlockAsBuffer
                                   0 o1),
                         serverWriteMacSecret :=
                           Some (Buffer_alloc_copy serverWriteMacSecretLength keyBlockAsBuffer
                                   o1 o2),
                         clientWriteKey :=
                           Some (Buffer_alloc_copy clientWriteKeyLength keyBlockAsBuffer o2 o3),
                         serverWriteKey :=
                           Some (Buffer_alloc_copy serverWriteKeyLength keyBlockAsBuffer o3
                                   (o3 + serverWriteKeyLength))\<rparr>\<rparr>
          in
          tryE (DtlsChangeCipherSpecMessage_create ChangeCipherSpecType_One) s7
            (\<lambda>changeCipherSpecMessage.
          tryE (DtlsChangeCipherSpecMessage_toBuffer changeCipherSpecMessage) s7
            (\<lambda>changeCipherSpecMessageAsBuffer.
          tryE (newRecord s7 DtlsChangeCipherSpecProtocol changeCipherSpecMessageAsBuffer) s7
            (\<lambda>ccsRecord.
          tryE (encryptForSend L s7 ccsRecord) (ivDrawn s7) (\<lambda>ccsRecordAsBuffer.
          (let s8 = socket_send ccsRecordAsBuffer (incrementNextOutgoingEpoch (ivDrawn s7));
               s9 = s8\<lparr>currentWriteState :=
                          \<lparr>bulkEncryptionAlgorithm =
                             sp_bulkEncryptionAlgorithm (securityParameters s8),
                           compressionMethod = sp_compressionMethod (securityParameters s8),
                           macAlgorithm = sp_macAlgorithm (securityParameters s8)\<rparr>\<rparr>;
               clientVerifyDataFirstHalf = createHash L ''md5'' (allHandshakeMessagesAsBuffer s9);
               clientVerifyDataSecondHalf = createHash L ''sha1'' (allHandshakeMessagesAsBuffer s9)
           in
           tryPRF L (masterSecret (securityParameters s9)) ''client finished''
             (clientVerifyDataFirstHalf @ clientVerifyDataSecondHalf) 12 s9 (\<lambda>clientVerifyData.
           tryE (FinishedMessage_create clientVerifyData) s9 (\<lambda>finishedMessage.
           tryE (FinishedMessage_toBuffer finishedMessage) s9 (\<lambda>finishedMessageAsBuffer.
           tryE (createFromMessageBuffer MessageType_Finished (length finishedMessageAsBuffer)
                   (handshakeMessageSequence s9) 0 (length finishedMessageAsBuffer)
                   finishedMessageAsBuffer) s9 (\<lambda>finishedHandshakeMessage.
           tryE (DtlsHandshakeMessage_toBuffer finishedHandshakeMessage) s9
             (\<lambda>finishedHandshakeMessageAsBuffer.
           (let s10 = s9\<lparr>handshakeMessageSequence := handshakeMessageSequence s9 + 1\<rparr>;
                s11 = s10\<lparr>allHandshakeMessagesAsBuffer :=
                             allHandshakeMessagesAsBuffer s10 @ finishedHandshakeMessageAsBuffer\<rparr>
            in
            tryE (newRecord s11 DtlsHandshakeProtocol finishedHandshakeMessageAsBuffer) s11
              (\<lambda>finishedRecord.
            tryE (encryptForSend L s11 finishedRecord) (ivDrawn s11) (\<lambda>finishedRecordAsBuffer.
            (let s12 = incrementNextOutgoingSequenceNumber (ivDrawn s11);
                 s13 = s12\<lparr>sessionState := SessionState_FinishedSent\<rparr>
             in (Normal, socket_send finishedRecordAsBuffer s13)))))))))))))))))))))))))))))))))"

text \<open>
  The loop that empties the queue after the connect callback:
  \<open>while (this.messageQueue.length > 0) { let data = this.messageQueue.pop();
  this.sendApplicationData(data); }\<close>. \<open>pop\<close> takes the last element. In a session that
  is not connected \<open>sendApplicationData\<close> puts the data back, so the loop is a partial
  function.
\<close>

partial_function (option) drainMessageQueue ::
  "crypto \<Rightarrow> DtlsSession \<Rightarrow> (flow \<times> DtlsSession) option" where
  "drainMessageQueue L s =
     (if length (messageQueue s) > 0 then
        (let data = last (messageQueue s);
             s1 = s\<lparr>messageQueue := butlast (messageQueue s)\<rparr>;
             r = sendApplicationData L data s1
         in if fst r = Normal then drainMessageQueue L (snd r) else Some r)
      else Some (Normal, s))"

declare drainMessageQueue.simps [code]

text \<open>
  \<open>if (this.connectListener) { this.connectListener(this); }\<close> with the closure of
  \<open>DtlsSocket.send\<close>.
\<close>

definition callConnectListener :: "crypto \<Rightarrow> DtlsSession \<Rightarrow> flow \<times> DtlsSession" where
  "callConnectListener L s =
     (case connectListener s of
        None \<Rightarrow> (Normal, s)
      | Some msg \<Rightarrow> sendApplicationData L msg (s\<lparr>events := events s @ [ConnectCallback]\<rparr>))"

text \<open>\<open>case enums.MessageType.Finished\<close>.\<close>

definition onFinished ::
  "crypto \<Rightarrow> DtlsHandshakeRecord \<Rightarrow> DtlsSession \<Rightarrow> flow \<times> DtlsSession" where
  "onFinished L dtlsHandshakeMessage s =
     tryE (fieldOf (FinishedMessage_fromBuffer (message dtlsHandshakeMessage))) s
       (\<lambda>verifyData.
     (let serverVerifyDataFirstHalf = createHash L ''md5'' (allHandshakeMessagesAsBuffer s);
          serverVerifyDataSecondHalf = createHash L ''sha1'' (allHandshakeMessagesAsBuffer s)
      in
      tryPRF L (masterSecret (securityParameters s)) ''server finished''
        (serverVerifyDataFirstHalf @ serverVerifyDataSecondHalf) 12 s (\<lambda>serverVerifyData.
      if Buffer_compare serverVerifyData verifyData \<noteq> 0 then (Return, s)
      else
        (let s1 = s\<lparr>sessionState := SessionState_Connected\<rparr>;
             c = callConnectListener L s1
         in if fst c \<noteq> Normal then c
            else (case drainMessageQueue L (snd c) of
                    None \<Rightarrow> (Diverged, snd c)
                  | Some r \<Rightarrow> r)))))"

text \<open>\<open>case enums.ProtocolType.DtlsChangeCipherSpecProtocol\<close>.\<close>

definition onChangeCipherSpec :: "DtlsRecord \<Rightarrow> DtlsSession \<Rightarrow> flow \<times> DtlsSession" where
  "onChangeCipherSpec dtlsRecord s =
     tryE (fieldOf (DtlsChangeCipherSpecMessage_fromBuffer (fragment dtlsRecord))) s
       (\<lambda>ccsType.
     if ccsType \<noteq> ChangeCipherSpecType_One then (Return, s)
     else (Normal, s\<lparr>currentReadState :=
                        \<lparr>bulkEncryptionAlgorithm =
                           sp_bulkEncryptionAlgorithm (securityParameters s),
                         compressionMethod = sp_compressionMethod (securityParameters s),
                         macAlgorithm = sp_macAlgorithm (securityParameters s)\<rparr>\<rparr>))"

text \<open>\<open>case enums.ProtocolType.DtlsAlertProtocol\<close>.\<close>

definition onAlert :: "DtlsRecord \<Rightarrow> DtlsSession \<Rightarrow> flow \<times> DtlsSession" where
  "onAlert dtlsRecord s =
     tryE (fieldOf (DtlsAlertMessage_fromBuffer (fragment dtlsRecord))) s (\<lambda>dtlsAlertMessage.
     if description dtlsAlertMessage = AlertDescription_CloseNotify \<and> disconnectListener s
     then (Normal, s\<lparr>events := events s @ [DisconnectCallback]\<rparr>)
     else (Normal, s))"

text \<open>\<open>case enums.ProtocolType.DtlsApplicationDataProtocol\<close>.\<close>

definition onApplicationData :: "DtlsRecord \<Rightarrow> DtlsSession \<Rightarrow> flow \<times> DtlsSession" where
  "onApplicationData dtlsRecord s =
     tryE (fieldOf (DtlsApplicationDataMessage_fromBuffer (fragment dtlsRecord))) s (\<lambda>data.
     if messageListener s then (Normal, s\<lparr>events := events s @ [MessageCallback data]\<rparr>)
     else (Normal, s))"

text \<open>The two nested \<open>switch\<close> statements of \<open>onSocketMessage\<close>.\<close>

definition onHandshake :: "crypto \<Rightarrow> DtlsRecord \<Rightarrow> DtlsSession \<Rightarrow> flow \<times> DtlsSession" where
  "onHandshake L dtlsRecord s =
     tryE (fieldOf (DtlsHandshakeMessage_fromBuffer (fragment dtlsRecord))) s
       (\<lambda>dtlsHandshakeMessage.
     if messageType dtlsHandshakeMessage = MessageType_HelloVerifyRequest
     then onHelloVerifyRequest L dtlsHandshakeMessage s
     else if messageType dtlsHandshakeMessage = MessageType_ServerHello
     then onServerHello L dtlsHandshakeMessage s
     else if messageType dtlsHandshakeMessage = MessageType_ServerHelloDone
     then onServerHelloDone L dtlsHandshakeMessage s
     else if messageType dtlsHandshakeMessage = MessageType_Finished
     then onFinished L dtlsHandshakeMessage s
     else (Normal, s))"

definition dispatchRecord :: "crypto \<Rightarrow> DtlsRecord \<Rightarrow> DtlsSession \<Rightarrow> flow \<times> DtlsSession" where
  "dispatchRecord L dtlsRecord s =
     (if protocolType dtlsRecord = DtlsHandshakeProtocol then onHandshake L dtlsRecord s
      else if protocolType dtlsRecord = DtlsChangeCipherSpecProtocol
      then onChangeCipherSpec dtlsRecord s
      else if protocolType dtlsRecord = DtlsAlertProtocol then onAlert dtlsRecord s
      else if protocolType dtlsRecord = DtlsApplicationDataProtocol
      then onApplicationData dtlsRecord s
      else (Normal, s))"

text \<open>
  \<open>DtlsRecord.fromEncryptedBuffer\<close> as \<open>onSocketMessage\<close> calls it, under the current
  read state with the server write key and MAC secret.
\<close>

definition nextRecord ::
  "crypto \<Rightarrow> bytes \<Rightarrow> nat \<Rightarrow> DtlsSession \<Rightarrow> js_error + (DtlsRecord \<times> nat) option" where
  "nextRecord L msg messageOffset s =
     fromEncryptedBuffer L msg (Some messageOffset)
       (bulkEncryptionAlgorithm (currentReadState s))
       (serverWriteKey (securityParameters s))
       (macAlgorithm (currentReadState s))
       (serverWriteMacSecret (securityParameters s))"

lemma bindE_InrD: "bindE m f = Inr y \<Longrightarrow> \<exists>v. m = Inr v \<and> f v = Inr y"
  by (cases m) (simp_all add: bindE_def)

lemma fromEncryptedBuffer_consumed:
  assumes "fromEncryptedBuffer L buffer (Some off) b k m ms = Inr (Some (r, n))"
  shows "13 \<le> n"
proof -
  from assms obtain io where
    "(if length buffer - io < HEADER_LENGTH then Inr None
      else
       (let randomIVLength = (if b \<noteq> BULK_NULL then getBulkAlgorithmBlockSize b else 0);
            r_protocolType = unat (buffer ! io)
        in
        bindE (readUInt16BE buffer (io + 1)) (\<lambda>r_dtlsVersion.
        bindE (readUInt16BE buffer (io + 3)) (\<lambda>r_epoch.
        bindE (readUIntBE buffer (io + 5) 6) (\<lambda>r_sequenceNumber.
        bindE (readUInt16BE buffer (io + 11)) (\<lambda>ciphertextLength0.
        (let currentOffset = io + 13 in
         if length buffer - currentOffset < ciphertextLength0 then Inr None
         else if \<not> randomIVLength < ciphertextLength0 then Inr None
         else
           (let randomIV = Buffer_alloc_copy randomIVLength buffer currentOffset
                             (currentOffset + randomIVLength);
                currentOffset1 = currentOffset + randomIVLength;
                ciphertextLength = ciphertextLength0 - randomIVLength;
                ciphertext = Buffer_alloc_copy ciphertextLength buffer currentOffset1
                               (currentOffset1 + ciphertextLength);
                currentOffset2 = currentOffset1 + ciphertextLength
            in
            bindE
              (if b = BULK_NULL \<or> length randomIV = 0
               then Inr (Some ciphertext)
               else decryptAndVerify L b k m ms r_epoch r_sequenceNumber r_protocolType
                      r_dtlsVersion randomIV ciphertext)
              (\<lambda>checked.
                 case checked of
                   None \<Rightarrow> Inr None
                 | Some compressedtext \<Rightarrow>
                     Inr (Some (\<lparr>protocolType = r_protocolType, dtlsVersion = r_dtlsVersion,
                                 epoch = r_epoch, sequenceNumber = r_sequenceNumber,
                                 fragment = compressedtext\<rparr>,
                                currentOffset2 - io)))))))))))
       = Inr (Some (r, n))"
    unfolding fromEncryptedBuffer_def by (blast dest: bindE_InrD)
  then show ?thesis
    by (auto simp: Let_def split: if_splits option.splits dest!: bindE_InrD)
qed

text \<open>
  The \<open>while (messageOffset < msg.length)\<close> loop of \<open>onSocketMessage\<close>.
  \<open>dtlsRecord_FromBufferResult.record\<close> reads a property of what \<open>fromEncryptedBuffer\<close>
  returned; when that is \<open>null\<close> the read throws a TypeError, before the test
  \<open>dtlsRecord == null\<close> that would discard the datagram.
\<close>

function onSocketMessage_loop ::
  "crypto \<Rightarrow> bytes \<Rightarrow> nat \<Rightarrow> DtlsSession \<Rightarrow> flow \<times> DtlsSession" where
  "onSocketMessage_loop L msg messageOffset s =
     (if messageOffset < length msg then
        (case nextRecord L msg messageOffset s of
           Inl e \<Rightarrow> (Threw e, s)
         | Inr None \<Rightarrow> (Threw TypeError, s)
         | Inr (Some (dtlsRecord, bytesConsumed)) \<Rightarrow>
             (case dispatchRecord L dtlsRecord s of
                (Normal, s') \<Rightarrow> onSocketMessage_loop L msg (messageOffset + bytesConsumed) s'
              | (Return, s') \<Rightarrow> (Normal, s')
              | (Threw e, s') \<Rightarrow> (Threw e, s')
              | (Diverged, s') \<Rightarrow> (Diverged, s')))
      else (Normal, s))"
  by pat_completeness auto
termination
proof (relation "measure (\<lambda>(L, msg, messageOffset, s). length msg - messageOffset)")
  show "wf (measure (\<lambda>(L, msg, messageOffset, s). length msg - messageOffset))" by simp
next
  fix L :: crypto and msg messageOffset s x2 x2a x1 and bytesConsumed :: nat and x1a s'
  assume lt: "messageOffset < length msg"
    and nr: "nextRecord L msg messageOffset s = Inr x2"
    and x2: "x2 = Some x2a" and x2a: "(x1, bytesConsumed) = x2a"
  from nr x2 x2a have "13 \<le> bytesConsumed"
    unfolding nextRecord_def by (auto dest: fromEncryptedBuffer_consumed)
  with lt show "((L, msg, messageOffset + bytesConsumed, s'), L, msg, messageOffset, s)
          \<in> measure (\<lambda>(L, msg, messageOffset, s). length msg - messageOffset)"
    by simp
qed

definition onSocketMessage :: "crypto \<Rightarrow> bytes \<Rightarrow> DtlsSession \<Rightarrow> flow \<times> DtlsSession" where
  "onSocketMessage L msg s = onSocketMessage_loop L msg 0 s"

text \<open>
  A record as it travels: the 13-byte header of the layout comment of DtlsRecord.js
  (type, version, epoch, sequence number, length) followed by the body.
\<close>

definition recordOnWire :: "byte \<Rightarrow> nat \<Rightarrow> nat \<Rightarrow> nat \<Rightarrow> bytes \<Rightarrow> bytes" where
  "recordOnWire t v e s body =
     [t] @ bytesBE 2 v @ bytesBE 2 e @ bytesBE 6 s @ bytesBE 2 (length body) @ body"

text \<open>
  The two defects of a decrypted plaintext \<open>P\<close>, in the words of the specification
  (section 4.2), with \<open>padLen = P[P.len - 1]\<close>. The padding is bad when
  \<open>padLen + 1 > P.len\<close> or one of the last \<open>padLen\<close> bytes before the padLen byte
  differs from \<open>padLen\<close>. The MAC is bad when the HMAC over \<open>epoch, seq, type, version,
  length, content\<close>, with the content \<open>P[0 .. P.len - padLen - 1 - mac_len]\<close>, differs in
  some byte from \<open>P[P.len - padLen - 1 - mac_len .. P.len - padLen - 1]\<close>; where \<open>P\<close> is
  too short to hold the whole MAC, the bytes that are missing differ.
\<close>

definition padding_bad :: "bytes \<Rightarrow> bool" where
  "padding_bad P =
     (let padLen = unat (last P)
      in padLen + 1 > length P \<or> (\<exists>j\<in>{0..<padLen}. P ! (length P - 2 - j) \<noteq> of_nat padLen))"

definition mac_bad ::
  "crypto \<Rightarrow> bytes \<Rightarrow> MacAlgorithm \<Rightarrow> nat \<Rightarrow> nat \<Rightarrow> nat \<Rightarrow> nat \<Rightarrow> bytes \<Rightarrow> bool" where
  "mac_bad L macSecret macAlg e s t v P =
     (let padLen = unat (last P);
          macLen = getMacAlgorithmHashSize macAlg;
          macEnd = int (length P) - int padLen - 1;
          macStart = macEnd - int macLen;
          content = take (nat macStart) P;
          received = drop (nat macStart) (take (nat macEnd) P)
      in take macLen (createHmac L ''sha1'' macSecret
                        (bytesBE 2 e @ bytesBE 6 s @ [of_nat t] @ bytesBE 2 v
                           @ bytesBE 2 (length content) @ content))
           \<noteq> received)"

text \<open>
  A stand-in for the crypto library, used to run the model on concrete inputs: digests
  of the right size that depend on the length of the data only, a cipher that leaves
  the data as it is, and the call number as random byte.
\<close>

definition example_crypto :: crypto where
  "example_crypto =
     \<lparr>createHmac = (\<lambda>algorithm key data.
        replicate (if algorithm = ''md5'' then 16 else 20) (of_nat (length data))),
      createHash = (\<lambda>algorithm data.
        replicate (if algorithm = ''md5'' then 16 else 20) (of_nat (length data))),
      cipher = (\<lambda>algorithm key iv data. Inr data),
      decipher = (\<lambda>algorithm key iv data. Inr data),
      randomBytes = (\<lambda>callNo n. replicate n (of_nat callNo))\<rparr>"

text \<open>
  A session in state ClientHelloSent with the NULL cipher states, as \<open>connect\<close> leaves
  it, with two payloads queued; the random and the transcript are stand-ins.
\<close>

definition example_session :: DtlsSession where
  "example_session =
     \<lparr>connectListener = Some [0x31],
      disconnectListener = True,
      messageListener = True,
      pskIdentity = Some [0x69, 0x64],
      pskPassword = Some [1, 2, 3, 4, 5, 6, 7, 8],
      sessionId = None,
      nextOutgoingEpoch = 0,
      nextOutgoingSequenceNumber = 1,
      currentReadState = \<lparr>bulkEncryptionAlgorithm = BULK_NULL, compressionMethod = 0,
                           macAlgorithm = MAC_NULL\<rparr>,
      currentWriteState = \<lparr>bulkEncryptionAlgorithm = BULK_NULL, compressionMethod = 0,
                            macAlgorithm = MAC_NULL\<rparr>,
      securityParameters =
        \<lparr>clientRandom = Some (replicate 32 0), serverRandom = None, masterSecret = None,
         sp_bulkEncryptionAlgorithm = BULK_NULL, sp_compressionMethod = 0,
         sp_macAlgorithm = MAC_NULL, clientWriteMacSecret = None, serverWriteMacSecret = None,
         clientWriteKey = None, serverWriteKey = None\<rparr>,
      handshakeMessageSequence = 1,
      allHandshakeMessagesAsBuffer = [1, 0, 0, 0],
      sessionState = SessionState_ClientHelloSent,
      messageQueue = [[0x41], [0x42]],
      events = [],
      randomCalls = 2\<rparr>"

text \<open>
  A session after the client's Finished went out: epoch 1, both cipher states
  AES-128-CBC with HMAC-SHA1, stand-in keys and transcript, the connect listener of
  \<open>DtlsSocket.send\<close> holding the payload \<open>0x31\<close>. The state, the queue, the effects so far,
  the next sequence number and the number of random draws are parameters.
\<close>

definition negotiated_session ::
  "nat option \<Rightarrow> bytes list \<Rightarrow> event list \<Rightarrow> nat \<Rightarrow> nat \<Rightarrow> DtlsSession" where
  "negotiated_session st q ev n rc =
     \<lparr>connectListener = Some [0x31],
      disconnectListener = True,
      messageListener = True,
      pskIdentity = Some [0x69, 0x64],
      pskPassword = Some [1, 2, 3, 4, 5, 6, 7, 8],
      sessionId = None,
      nextOutgoingEpoch = 1,
      nextOutgoingSequenceNumber = n,
      currentReadState = \<lparr>bulkEncryptionAlgorithm = AES_128_CBC, compressionMethod = 0,
                           macAlgorithm = SHA1\<rparr>,
      currentWriteState = \<lparr>bulkEncryptionAlgorithm = AES_128_CBC, compressionMethod = 0,
                            macAlgorithm = SHA1\<rparr>,
      securityParameters =
        \<lparr>clientRandom = Some (replicate 32 0), serverRandom = Some (replicate 32 1),
         masterSecret = Some (replicate 48 2),
         sp_bulkEncryptionAlgorithm = AES_128_CBC, sp_compressionMethod = 0,
         sp_macAlgorithm = SHA1,
         clientWriteMacSecret = Some (replicate 20 3),
         serverWriteMacSecret = Some (replicate 20 4),
         clientWriteKey = Some (replicate 16 5), serverWriteKey = Some (replicate 16 6)\<rparr>,
      handshakeMessageSequence = 3,
      allHandshakeMessagesAsBuffer = [1, 0, 0, 0],
      sessionState = st,
      messageQueue = q,
      events = ev,
      randomCalls = rc\<rparr>"

section \<open>The PRF secret halves\<close>

lemma Math_trunc_of_int [simp]: "Math_trunc (of_int i) = i"
  by (simp add: Math_trunc_def)

lemma Math_trunc_of_nat [simp]: "Math_trunc (of_nat n) = int n"
  using Math_trunc_of_int [of "int n"] by simp

lemma adjustOffset_of_nat: "adjustOffset (of_nat n) len = min n len"
  by (auto simp: adjustOffset_def Let_def)

lemma adjustOffset_zero [simp]: "adjustOffset 0 len = 0"
  by (simp add: adjustOffset_def Math_trunc_def)

lemma secretFirstHalf_even:
  assumes "even (length secret)"
  shows "secretFirstHalf secret = take (length secret div 2) secret"
proof -
  obtain k where k: "length secret = 2 * k" using assms by (auto elim: evenE)
  have "secretEachHalfLength secret = of_nat k"
    by (simp add: secretEachHalfLength_def k)
  then show ?thesis
    by (simp add: secretFirstHalf_def Buffer_slice_def adjustOffset_of_nat k)
qed

lemma secretSecondHalf_even:
  assumes "even (length secret)"
  shows "secretSecondHalf secret = drop (length secret div 2) secret"
proof -
  obtain k where k: "length secret = 2 * k" using assms by (auto elim: evenE)
  have "(of_nat (length secret) / 2 :: rat) - of_nat (length secret mod 2) = of_nat k"
    by (simp add: k)
  moreover have "adjustOffset (of_nat (length secret)) (length secret) = length secret"
    by (simp add: adjustOffset_of_nat)
  ultimately show ?thesis
    unfolding secretSecondHalf_def Buffer_slice_def Let_def
    by (simp add: adjustOffset_of_nat k)
qed

lemma adjustOffset_half: "adjustOffset (of_nat m + 1 / 2) len = min m len"
proof -
  have "Math_trunc (of_nat m + 1 / 2) = int m"
    unfolding Math_trunc_def by (simp add: floor_eq_iff)
  then show ?thesis
    by (auto simp: adjustOffset_def Let_def)
qed

lemma secretFirstHalf_odd:
  assumes "odd (length secret)"
  shows "secretFirstHalf secret = take (length secret div 2 + 1) secret"
proof -
  obtain k where k: "length secret = 2 * k + 1" using assms by (auto elim: oddE)
  have e: "secretEachHalfLength secret = of_nat (k + 1) + 1 / 2"
    by (simp add: secretEachHalfLength_def k add_divide_distrib)
  have "adjustOffset (secretEachHalfLength secret) (length secret) = k + 1"
    unfolding e adjustOffset_half by (simp add: k)
  then show ?thesis
    by (simp add: secretFirstHalf_def Buffer_slice_def k)
qed

lemma secretSecondHalf_odd:
  assumes "odd (length secret)" and "3 \<le> length secret"
  shows "secretSecondHalf secret = drop (length secret div 2 - 1) secret"
proof -
  obtain k where k: "length secret = 2 * k + 1" using assms by (auto elim: oddE)
  with assms have k1: "1 \<le> k" by simp
  have e: "(of_nat (length secret) / 2 :: rat) - of_nat (length secret mod 2)
             = of_nat (k - 1) + 1 / 2"
    using k1 by (simp add: k add_divide_distrib of_nat_diff)
  have "adjustOffset ((of_nat (length secret) / 2) - of_nat (length secret mod 2))
               (length secret) = k - 1"
    unfolding e adjustOffset_half by (simp add: k)
  moreover have "adjustOffset (of_nat (length secret)) (length secret) = length secret"
    by (simp add: adjustOffset_of_nat)
  ultimately show ?thesis
    unfolding secretSecondHalf_def Buffer_slice_def Let_def
    by (simp add: k)
qed

text \<open>
  C6. The claim puts the last \<open>\<lceil>|secret|/2\<rceil>\<close> bytes in S2. For the three-byte secret
  \<open>[1, 2, 3]\<close> the first half is \<open>[1, 2]\<close>, but the second half starts at
  \<open>trunc(3/2 - 1) = 0\<close> and is the whole secret, not \<open>[2, 3]\<close>; \<open>PRF\<close> feeds that to
  P_SHA1.
\<close>

theorem PRF_odd_secret_second_half:
  "secretFirstHalf [1, 2, 3] = [1, 2] \<and>
   secretSecondHalf [1, 2, 3] = [1, 2, 3] \<and>
   secretSecondHalf [1, 2, 3] \<noteq> drop (3 - 2) [1, 2, 3] \<and>
   PRF L [1, 2, 3] label seed n =
     (case P_hash L [1, 2] (Buffer_from_string label @ seed) n ''md5'' of
        None \<Rightarrow> None
      | Some md5Result \<Rightarrow>
          (case P_hash L [1, 2, 3] (Buffer_from_string label @ seed) n ''sha1'' of
             None \<Rightarrow> None
           | Some sha1Result \<Rightarrow> Some (xorBuffers md5Result sha1Result)))"
proof -
  have a: "secretFirstHalf [1, 2, 3] = [1, 2]"
    using secretFirstHalf_odd [of "[1, 2, 3]"] by simp
  have b: "secretSecondHalf [1, 2, 3] = [1, 2, 3]"
    using secretSecondHalf_odd [of "[1, 2, 3]"] by simp
  show ?thesis
    unfolding PRF_def Let_def a b by simp
qed

section \<open>Reading and writing integers\<close>

lemma bindE_simps [simp]: "bindE (Inl e) f = Inl e" "bindE (Inr v) f = f v"
  by (simp_all add: bindE_def)

lemma length_bytesBE [simp]: "length (bytesBE n v) = n"
  by (induction n arbitrary: v) auto

lemma uintBE_snoc: "uintBE (xs @ [b]) = uintBE xs * 256 + unat b"
  by (simp add: uintBE_def)

lemma unat_of_nat_byte: "unat (of_nat (v mod 256) :: byte) = v mod 256"
  by (simp add: unat_of_nat)

lemma uintBE_bytesBE: "v < 256 ^ n \<Longrightarrow> uintBE (bytesBE n v) = v"
proof (induction n arbitrary: v)
  case 0 then show ?case by (simp add: uintBE_def)
next
  case (Suc n)
  then have "v div 256 < 256 ^ n" by (simp add: less_mult_imp_div_less mult.commute)
  with Suc.IH have "uintBE (bytesBE n (v div 256)) = v div 256" by blast
  then show ?case by (simp add: uintBE_snoc unat_of_nat_byte)
qed

lemma readUIntBE_at:
  "v < 256 ^ n \<Longrightarrow> readUIntBE (a @ bytesBE n v @ rest) (length a) n = Inr v"
  by (simp add: readUIntBE_def uintBE_bytesBE)

lemma foldl_flag:
  "foldl (\<lambda>err i. if P i then True else err) e xs = (e \<or> (\<exists>i\<in>set xs. P i))"
  by (induction xs arbitrary: e) auto

lemma paddingLoop_iff:
  "paddingLoop c p = (\<exists>i. length c - p - 1 \<le> i \<and> i < length c \<and> c ! i \<noteq> of_nat p)"
  unfolding paddingLoop_def foldl_flag by auto

lemma macLoop_iff:
  "macLoop h m n = (\<exists>i<n. Buffer_index h (int i) \<noteq> Buffer_index m (int i))"
  unfolding macLoop_def foldl_flag by auto

lemma adjustOffset_of_int_nonneg: "0 \<le> i \<Longrightarrow> adjustOffset (of_int i) len = min (nat i) len"
  by (auto simp: adjustOffset_def Let_def)

lemma writeUIntBE_ok: "v < 256 ^ n \<Longrightarrow> writeUIntBE v n = Inr (bytesBE n v)"
  by (simp add: writeUIntBE_def)

lemma writeUInt16BE_ok: "v < 65536 \<Longrightarrow> writeUInt16BE v = Inr (bytesBE 2 v)"
  by (simp add: writeUInt16BE_def writeUIntBE_def)

lemma createFromPlaintext_InrD:
  assumes "createFromPlaintext type version ep seqNo frag = Inr r"
  shows "r = \<lparr>protocolType = type, dtlsVersion = version, epoch = ep,
               sequenceNumber = seqNo, fragment = frag\<rparr>"
    and "type < 256" and "version < 65536" and "ep < 65536" and "seqNo < 2 ^ 48"
    and "length frag \<le> 16384"
  using assms
  by (auto simp: createFromPlaintext_def isProtocolTypeValid_def isDtlsVersionValid_def
      MAX_PLAINTEXT_FRAGMENT_LENGTH_def split: if_splits)


section \<open>The record layer\<close>

lemma buildBufferForEncryption_shape:
  fixes frag mac :: bytes
  assumes "length mac = 20"
  defines "p \<equiv> ((length frag + 21 + 15) div 16) * 16 - (length frag + 21)"
  shows "buildBufferForEncryption frag mac 16 = frag @ mac @ replicate p (of_nat p) @ [of_nat p]"
    and "p < 16"
    and "16 dvd (length frag + 21 + p)"
proof -
  show "buildBufferForEncryption frag mac 16 = frag @ mac @ replicate p (of_nat p) @ [of_nat p]"
    using assms by (simp add: buildBufferForEncryption_def Let_def add.commute add.left_commute)
  show "p < 16" unfolding p_def by presburger
  show "16 dvd (length frag + 21 + p)" unfolding p_def by presburger
qed

lemma new_Buffer_Some [simp]: "new_Buffer (Some b) = Inr b"
  by (simp add: new_Buffer_def)

lemma decryptAndVerify_ok:
  assumes dec: "decipher L (getBulkAlgorithmAsString bulk) key iv c
                  = Inr (frag @ mac @ replicate p (of_nat p) @ [of_nat p])"
    and p: "p < 256" and mac: "length mac = 20"
    and mb: "buildBufferForMacCalculation ep sq ty ver frag = Inr mb"
    and h: "createHmac L ''sha1'' ms mb = mac"
  shows "decryptAndVerify L bulk (Some key) SHA1 (Some ms) ep sq ty ver iv c = Inr (Some frag)"
proof -
  let ?E = "frag @ mac @ replicate p (of_nat p) @ [of_nat p :: byte]"
  have len: "length ?E = length frag + 21 + p" using mac by simp
  have up: "unat (of_nat p :: byte) = p" using p by (simp add: unat_of_nat)
  have lastE: "unat (last ?E) = p" using up by simp
  have pl: "\<not> paddingLoop ?E p"
  proof -
    have "?E ! i = of_nat p" if "length ?E - p - 1 \<le> i" "i < length ?E" for i
    proof -
      define R where "R = replicate (Suc p) (of_nat p :: byte)"
      have "?E = (frag @ mac) @ R"
        by (simp add: R_def replicate_append_same)
      moreover have "length (frag @ mac) \<le> i" using that len mac by simp
      ultimately have "?E ! i = R ! (i - length (frag @ mac))"
        by (metis leD nth_append)
      moreover have "i - length (frag @ mac) < Suc p" using that len mac by simp
      then have "R ! (i - length (frag @ mac)) = of_nat p"
        unfolding R_def by (rule nth_replicate)
      ultimately show ?thesis by simp
    qed
    then show ?thesis unfolding paddingLoop_iff by blast
  qed
  have hs: "getMacAlgorithmHashSize SHA1 = 20" by (simp add: getMacAlgorithmHashSize_def)
  have i2: "int (length ?E) - int p - int 1 = int (length frag + 20)"
    unfolding len by simp
  have i1: "int (length frag + 20) - int 20 = int (length frag)"
    by simp
  have s1: "Buffer_slice ?E 0 (of_int (int (length frag))) = frag"
    by (simp add: Buffer_slice_def Let_def adjustOffset_of_nat)
  have s2: "Buffer_slice ?E (of_int (int (length frag))) (of_int (int (length frag + 20))) = mac"
    using mac
    by (simp add: Buffer_slice_def Let_def adjustOffset_of_nat del: of_nat_add)
  have ml: "\<not> macLoop mac mac 20" unfolding macLoop_iff by simp
  have ne: "length ?E \<noteq> 0" by simp
  have le: "\<not> p + 1 > length ?E" unfolding len by simp
  show ?thesis
    unfolding decryptAndVerify_def Let_def new_Buffer_Some bindE_simps dec lastE hs i2 i1 s1 s2 mb h
    using pl ml ne le by (simp only: if_False bindE_simps)
qed

lemma recordOnWire_reads:
  assumes "v < 65536" "e < 65536" "s < 2 ^ 48" "length body < 65536"
  shows "readUInt16BE (recordOnWire t v e s body @ rest) 1 = Inr v"
    and "readUInt16BE (recordOnWire t v e s body @ rest) 3 = Inr e"
    and "readUIntBE (recordOnWire t v e s body @ rest) 5 6 = Inr s"
    and "readUInt16BE (recordOnWire t v e s body @ rest) 11 = Inr (length body)"
    and "(recordOnWire t v e s body @ rest) ! 0 = t"
    and "drop 13 (recordOnWire t v e s body @ rest) = body @ rest"
    and "length (recordOnWire t v e s body @ rest) = 13 + length body + length rest"
proof -
  show "readUInt16BE (recordOnWire t v e s body @ rest) 1 = Inr v"
    using readUIntBE_at [of v 2 "[t]"] assms unfolding readUInt16BE_def recordOnWire_def by simp
  show "readUInt16BE (recordOnWire t v e s body @ rest) 3 = Inr e"
    using readUIntBE_at [of e 2 "[t] @ bytesBE 2 v"] assms
    unfolding readUInt16BE_def recordOnWire_def by simp
  show "readUIntBE (recordOnWire t v e s body @ rest) 5 6 = Inr s"
    using readUIntBE_at [of s 6 "[t] @ bytesBE 2 v @ bytesBE 2 e"] assms
    unfolding recordOnWire_def by simp
  show "readUInt16BE (recordOnWire t v e s body @ rest) 11 = Inr (length body)"
    using readUIntBE_at [of "length body" 2 "[t] @ bytesBE 2 v @ bytesBE 2 e @ bytesBE 6 s"] assms
    unfolding readUInt16BE_def recordOnWire_def by simp
  show "(recordOnWire t v e s body @ rest) ! 0 = t" by (simp add: recordOnWire_def)
  show "drop 13 (recordOnWire t v e s body @ rest) = body @ rest" by (simp add: recordOnWire_def)
  show "length (recordOnWire t v e s body @ rest) = 13 + length body + length rest"
    by (simp add: recordOnWire_def)
qed

lemma fromEncryptedBuffer_encrypted:
  assumes bulk: "bulk \<noteq> BULK_NULL"
    and rng: "v < 65536" "e < 65536" "s < 2 ^ 48" "16 + length c < 65536"
    and iv: "length iv = 16" and c: "c \<noteq> []"
    and off: "off = None \<or> off = Some 0"
  shows "fromEncryptedBuffer L (recordOnWire t v e s (iv @ c) @ rest) off bulk key macAlg macSecret =
           bindE (decryptAndVerify L bulk key macAlg macSecret e s (unat t) v iv c)
             (\<lambda>checked. case checked of
                 None \<Rightarrow> Inr None
               | Some compressedtext \<Rightarrow>
                   Inr (Some (\<lparr>protocolType = unat t, dtlsVersion = v, epoch = e,
                               sequenceNumber = s, fragment = compressedtext\<rparr>,
                              29 + length c)))"
proof -
  define buf where "buf = recordOnWire t v e s (iv @ c) @ rest"
  have lb: "length (iv @ c) < 65536" using rng iv by simp
  note rd = recordOnWire_reads [OF rng(1) rng(2) rng(3) lb, of t rest, folded buf_def]
  have bs: "getBulkAlgorithmBlockSize bulk = 16"
    using bulk by (cases bulk) (simp_all add: getBulkAlgorithmBlockSize_def)
  have len: "length buf = 29 + length c + length rest" using rd(7) iv by simp
  have off0: "bindE (case off of None \<Rightarrow> Inr 0
                | Some off \<Rightarrow> if off \<ge> length buf then Inl RangeError else Inr off) f = f 0" for f
    using off len by auto
  have civ: "Buffer_alloc_copy 16 buf 13 29 = iv"
    unfolding Buffer_alloc_copy_def rd(6) using iv by simp
  have cc: "Buffer_alloc_copy (length c) buf 29 (29 + length c) = c"
  proof -
    have "drop 29 buf = drop 16 (drop 13 buf)"
      unfolding drop_drop by simp
    also have "\<dots> = c @ rest" unfolding rd(6) using iv by simp
    finally have d: "drop 29 buf = c @ rest" .
    show ?thesis unfolding Buffer_alloc_copy_def d by simp
  qed
  have r1: "readUInt16BE buf (Suc 0) = Inr v" using rd(1) by simp
  have r4: "readUInt16BE buf 11 = Inr (16 + length c)" using rd(4) iv by simp
  have "fromEncryptedBuffer L buf off bulk key macAlg macSecret =
           bindE (decryptAndVerify L bulk key macAlg macSecret e s (unat t) v iv c)
             (\<lambda>checked. case checked of
                 None \<Rightarrow> Inr None
               | Some compressedtext \<Rightarrow>
                   Inr (Some (\<lparr>protocolType = unat t, dtlsVersion = v, epoch = e,
                               sequenceNumber = s, fragment = compressedtext\<rparr>,
                              29 + length c)))"
    unfolding fromEncryptedBuffer_def off0 Let_def
    using bulk c iv
    by (simp add: r1 rd(2) rd(3) r4 rd(5) len bs HEADER_LENGTH_def civ cc)
  then show ?thesis unfolding buf_def .
qed

lemma macLoop_take:
  assumes "length m = n"
  shows "macLoop h m n = (take n h \<noteq> m)"
proof -
  have "(take n h = m) = (\<forall>i<n. Buffer_index h (int i) = Buffer_index m (int i))"
  proof
    assume "take n h = m"
    then have "length h \<ge> n" using assms by (metis length_take min.cobounded1 min.commute)
    with \<open>take n h = m\<close> show "\<forall>i<n. Buffer_index h (int i) = Buffer_index m (int i)"
      using assms by (auto simp: Buffer_index_def)
  next
    assume a: "\<forall>i<n. Buffer_index h (int i) = Buffer_index m (int i)"
    have ln: "n \<le> length h"
    proof (rule ccontr)
      assume "\<not> n \<le> length h"
      then have "length h < n" by simp
      with a have "Buffer_index h (int (length h)) = Buffer_index m (int (length h))" by blast
      then show False using assms \<open>length h < n\<close> by (simp add: Buffer_index_def)
    qed
    show "take n h = m"
    proof (rule nth_equalityI)
      show "length (take n h) = length m" using ln assms by simp
      fix i assume "i < length (take n h)"
      then have "i < n" by simp
      with a have "Buffer_index h (int i) = Buffer_index m (int i)" by blast
      then show "take n h ! i = m ! i"
        using ln assms \<open>i < n\<close> by (simp add: Buffer_index_def)
    qed
  qed
  then show ?thesis unfolding macLoop_iff by auto
qed

lemma paddingError_iff:
  assumes "P \<noteq> []" and "unat (last P) + 1 \<le> length P"
  shows "paddingLoop P (unat (last P)) = padding_bad P"
proof -
  let ?p = "unat (last P)"
  let ?n = "length P"
  have lastP: "P ! (?n - 1) = of_nat ?p"
    using assms(1) by (simp add: last_conv_nth)
  have "(\<exists>i. ?n - ?p - 1 \<le> i \<and> i < ?n \<and> P ! i \<noteq> of_nat ?p)
          = (\<exists>j\<in>{0..<?p}. P ! (?n - 2 - j) \<noteq> of_nat ?p)"
  proof
    assume "\<exists>i. ?n - ?p - 1 \<le> i \<and> i < ?n \<and> P ! i \<noteq> of_nat ?p"
    then obtain i where i: "?n - ?p - 1 \<le> i" "i < ?n" "P ! i \<noteq> of_nat ?p" by blast
    with lastP have "i \<noteq> ?n - 1" by auto
    with i have "i \<le> ?n - 2" by simp
    define j where "j = ?n - 2 - i"
    have "j < ?p" using i assms(2) \<open>i \<le> ?n - 2\<close> \<open>i \<noteq> ?n - 1\<close> unfolding j_def by linarith
    moreover have "?n - 2 - j = i" using \<open>i \<le> ?n - 2\<close> unfolding j_def by simp
    ultimately show "\<exists>j\<in>{0..<?p}. P ! (?n - 2 - j) \<noteq> of_nat ?p" using i(3) by auto
  next
    assume "\<exists>j\<in>{0..<?p}. P ! (?n - 2 - j) \<noteq> of_nat ?p"
    then obtain j where j: "j < ?p" "P ! (?n - 2 - j) \<noteq> of_nat ?p" by auto
    have "?n - ?p - 1 \<le> ?n - 2 - j" using j(1) assms(2) by linarith
    moreover have "?n - 2 - j < ?n" using assms(1) by (simp add: length_greater_0_conv less_imp_diff_less)
    ultimately show "\<exists>i. ?n - ?p - 1 \<le> i \<and> i < ?n \<and> P ! i \<noteq> of_nat ?p" using j(2) by blast
  qed
  then show ?thesis
    using assms(2) unfolding paddingLoop_iff padding_bad_def Let_def by simp
qed

lemma length_Buffer_slice: "length (Buffer_slice b x y) \<le> length b"
  by (simp add: Buffer_slice_def Let_def)

lemma buildBufferForMacCalculation_ok:
  assumes "e < 65536" "s < 2 ^ 48" "v < 65536" "length frag < 65536"
  shows "buildBufferForMacCalculation e s t v frag =
           Inr (bytesBE 2 e @ bytesBE 6 s @ [of_nat t] @ bytesBE 2 v @ bytesBE 2 (length frag) @ frag)"
  using assms by (simp add: buildBufferForMacCalculation_def writeUInt16BE_ok writeUIntBE_ok)

lemma short_slice:
  assumes "a < 0" "0 \<le> b" "b - a = int m" "P \<noteq> []"
  shows "length (Buffer_slice P (of_int a) (of_int b)) < m"
proof -
  have e: "adjustOffset (of_int b) (length P) = min (nat b) (length P)"
    using assms(2) by (rule adjustOffset_of_int_nonneg)
  have s: "adjustOffset (of_int a) (length P)
             = (if a + int (length P) > 0 then nat (a + int (length P)) else 0)"
    using assms(1) by (simp add: adjustOffset_def Let_def)
  have lp: "0 < length P" using assms(4) by simp
  show ?thesis
    unfolding Buffer_slice_def Let_def e s using assms(1-3) lp
    by (auto simp: min_def split: if_splits)
qed

lemma decryptAndVerify_bad:
  assumes dec: "decipher L (getBulkAlgorithmAsString bulk) key iv c = Inr P"
    and lp: "length P < 65536"
    and rng: "e < 65536" "s < 2 ^ 48" "v < 65536"
    and hm: "\<And>k d. length (createHmac L ''sha1'' k d) = 20"
    and bad: "padding_bad P \<or> mac_bad L ms macAlg e s t v P"
  shows "decryptAndVerify L bulk (Some key) macAlg (Some ms) e s t v iv c = Inr None"
proof (cases "P = []")
  case True
  then show ?thesis by (simp add: decryptAndVerify_def dec)
next
  case False
  let ?p = "unat (last P)"
  let ?ml = "getMacAlgorithmHashSize macAlg"
  let ?macEnd = "int (length P) - int ?p - int 1"
  let ?macStart = "?macEnd - int ?ml"
  let ?wo = "Buffer_slice P 0 (of_int ?macStart)"
  let ?mh = "Buffer_slice P (of_int ?macStart) (of_int ?macEnd)"
  let ?H = "createHmac L ''sha1'' ms
              (bytesBE 2 e @ bytesBE 6 s @ [of_nat t] @ bytesBE 2 v @ bytesBE 2 (length ?wo) @ ?wo)"
  have lwo: "length ?wo < 65536" using length_Buffer_slice [of P 0 "of_int ?macStart"] lp by simp
  note mb = buildBufferForMacCalculation_ok [OF rng(1) rng(2) rng(3) lwo, of t]
  let ?pe = "if ?p + 1 > length P then True else paddingLoop P ?p"
  have flags: "macLoop ?H ?mh ?ml \<or> ?pe"
  proof (cases "padding_bad P")
    case True
    then show ?thesis
      using paddingError_iff [OF False] by (cases "?p + 1 > length P") auto
  next
    case nb: False
    with bad have mbad: "mac_bad L ms macAlg e s t v P" by simp
    from nb have fit: "?p + 1 \<le> length P"
      unfolding padding_bad_def Let_def by simp
    then have me0: "0 \<le> ?macEnd" by linarith
    show ?thesis
    proof (cases "0 \<le> ?macStart")
      case True
      define n where "n = nat ?macStart"
      have ms: "?macStart = int n" using True unfolding n_def by simp
      have me: "?macEnd = int (n + ?ml)" using ms by simp
      have ms': "int (n + ?ml) - int ?ml = int n" by simp
      have nle: "n + ?ml \<le> length P" using me fit by linarith
      have wo: "?wo = take n P"
        unfolding ms using nle by (simp add: Buffer_slice_def Let_def adjustOffset_of_nat)
      have mh: "?mh = take ?ml (drop n P)"
        unfolding me ms' using nle
        by (simp add: Buffer_slice_def Let_def adjustOffset_of_nat del: of_nat_add)
      have lmh: "length (take ?ml (drop n P)) = ?ml" using nle by simp
      have ln: "length (take n P) = n" using nle by simp
      let ?me1 = "int (length P) - int ?p - 1"
      have mb2: "take ?ml (createHmac L ''sha1'' ms
                   (bytesBE 2 e @ bytesBE 6 s @ [of_nat t] @ bytesBE 2 v
                      @ bytesBE 2 (length (take (nat (?me1 - int ?ml)) P))
                      @ take (nat (?me1 - int ?ml)) P))
                 \<noteq> drop (nat (?me1 - int ?ml)) (take (nat ?me1) P)"
        using mbad unfolding mac_bad_def Let_def .
      have e1: "nat (?me1 - int ?ml) = n" unfolding n_def by simp
      have e2: "nat ?me1 = n + ?ml" using me by linarith
      have e3: "drop n (take (n + ?ml) P) = take ?ml (drop n P)"
        by (simp add: drop_take)
      have ne: "take ?ml (createHmac L ''sha1'' ms
                 (bytesBE 2 e @ bytesBE 6 s @ [of_nat t] @ bytesBE 2 v @ bytesBE 2 n @ take n P))
               \<noteq> take ?ml (drop n P)"
        using mb2 unfolding e1 e2 e3 ln .
      show ?thesis
        unfolding wo mh macLoop_take [OF lmh] ln using ne by simp
    next
      case neg: False
      then have "0 < ?ml" by (smt (verit) me0 of_nat_0_less_iff)
      then have ml: "?ml = 20" by (cases macAlg) (simp_all add: getMacAlgorithmHashSize_def)
      have "?macEnd - ?macStart = int ?ml" by simp
      from short_slice [OF _ me0 this False] neg
      have short: "length ?mh < ?ml" by simp
      have lH: "length ?H = 20" by (rule hm)
      have "Buffer_index ?H (int (length ?mh)) \<noteq> Buffer_index ?mh (int (length ?mh))"
        using short lH ml by (simp add: Buffer_index_def)
      with short have "macLoop ?H ?mh ?ml" unfolding macLoop_iff by blast
      then show ?thesis by simp
    qed
  qed
  have ne0: "length P \<noteq> 0" using False by simp
  show ?thesis
    unfolding decryptAndVerify_def Let_def new_Buffer_Some bindE_simps dec mb
    using flags ne0 by (auto simp only: if_True if_False bindE_simps split: if_splits)
qed

text \<open>
  C2. Under AES-128-CBC or AES-256-CBC with HMAC-SHA1 and the same key and MAC secret on
  both sides, every record that \<open>createFromPlaintext\<close> accepts (fragment of at most
  \<open>2^14\<close> bytes, epoch up to \<open>2^16 - 1\<close>, sequence number up to \<open>2^48 - 1\<close>) is encoded
  by \<open>toEncryptedBuffer\<close> into a buffer that \<open>fromEncryptedBuffer\<close> decodes to the same
  record, with \<open>bytesConsumed\<close> the length of the buffer. The library is taken to return
  16 random bytes, 20-byte HMAC-SHA1 digests, and a cipher that keeps the length of
  block-aligned data and is undone by the decipher.
\<close>

theorem record_roundtrip:
  assumes cr: "createFromPlaintext type version ep seqNo frag = Inr r"
    and bulk: "bulk = AES_128_CBC \<or> bulk = AES_256_CBC"
    and rnd: "length (randomBytes L callNo 16) = 16"
    and hm: "\<And>k d. length (createHmac L ''sha1'' k d) = 20"
    and ciph: "\<And>iv p. length iv = 16 \<Longrightarrow> 16 dvd length p \<Longrightarrow>
                 \<exists>c. cipher L (getBulkAlgorithmAsString bulk) key iv p = Inr c
                     \<and> length c = length p
                     \<and> decipher L (getBulkAlgorithmAsString bulk) key iv c = Inr p"
    and off: "off = None \<or> off = Some 0"
  shows "\<exists>buf. toEncryptedBuffer L callNo r bulk (Some key) SHA1 (Some macSecret) = Inr buf \<and>
           fromEncryptedBuffer L buf off bulk (Some key) SHA1 (Some macSecret)
             = Inr (Some (r, length buf))"
proof -
  note f = createFromPlaintext_InrD [OF cr]
  have bnn: "bulk \<noteq> BULK_NULL" using bulk by auto
  have bs: "getBulkAlgorithmBlockSize bulk = 16"
    using bulk by (auto simp: getBulkAlgorithmBlockSize_def)
  define iv where "iv = randomBytes L callNo 16"
  define mb where "mb = bytesBE 2 ep @ bytesBE 6 seqNo @ [of_nat type] @ bytesBE 2 version
                          @ bytesBE 2 (length frag) @ frag"
  have mbE: "buildBufferForMacCalculation ep seqNo type version frag = Inr mb"
    using f(3-6) by (simp add: buildBufferForMacCalculation_def writeUInt16BE_ok writeUIntBE_ok mb_def)
  define mac where "mac = createHmac L ''sha1'' macSecret mb"
  have lmac: "length mac = 20" unfolding mac_def by (rule hm)
  define p where "p = ((length frag + 21 + 15) div 16) * 16 - (length frag + 21)"
  define E where "E = frag @ mac @ replicate p (of_nat p) @ [of_nat p :: byte]"
  note sh = buildBufferForEncryption_shape [OF lmac, of frag, folded p_def]
  have EE: "buildBufferForEncryption frag mac 16 = E" using sh(1) by (simp add: E_def)
  have lE: "length E = length frag + 21 + p" using lmac by (simp add: E_def)
  have dE: "16 dvd length E" using sh(3) lE by simp
  have liv: "length iv = 16" unfolding iv_def by (rule rnd)
  obtain c where c: "cipher L (getBulkAlgorithmAsString bulk) key iv E = Inr c"
      "length c = length E" "decipher L (getBulkAlgorithmAsString bulk) key iv c = Inr E"
    using ciph [OF liv dE] by blast
  have cne: "c \<noteq> []" using c(2) lE by auto
  have lc: "16 + length c < 65536" using c(2) lE sh(2) f(6) by simp
  define buf where "buf = recordOnWire (of_nat type) version ep seqNo (iv @ c)"
  have enc: "toEncryptedBuffer L callNo r bulk (Some key) SHA1 (Some macSecret) = Inr buf"
    unfolding toEncryptedBuffer_def Let_def f(1)
    using bnn f(3-5) lc liv
    by (simp add: bs mbE iv_def [symmetric] mac_def [symmetric] EE c(1) writeUInt16BE_ok
        writeUIntBE_ok buf_def recordOnWire_def add.commute)
  have ut: "unat (of_nat type :: byte) = type" using f(2) by (simp add: unat_of_nat)
  have dv: "decryptAndVerify L bulk (Some key) SHA1 (Some macSecret) ep seqNo type version iv c
              = Inr (Some frag)"
  proof -
    have d: "decipher L (getBulkAlgorithmAsString bulk) key iv c
               = Inr (frag @ mac @ replicate p (of_nat p) @ [of_nat p])"
      using c(3) unfolding E_def .
    have p256: "p < 256" using sh(2) by simp
    have hh: "createHmac L ''sha1'' macSecret mb = mac" unfolding mac_def ..
    show ?thesis by (rule decryptAndVerify_ok [OF d p256 lmac mbE hh])
  qed
  have lbuf: "length buf = 29 + length c" using liv by (simp add: buf_def recordOnWire_def)
  have dec: "fromEncryptedBuffer L buf off bulk (Some key) SHA1 (Some macSecret)
               = Inr (Some (r, length buf))"
    using fromEncryptedBuffer_encrypted [OF bnn f(3) f(4) f(5) lc liv cne off,
        of L "of_nat type" "[]" "Some key" SHA1 "Some macSecret"]
    unfolding buf_def [symmetric] ut dv
    by (simp add: f(1) lbuf)
  from enc dec show ?thesis by blast
qed

theorem record_roundtrip_witness:
  "createFromPlaintext 0x17 0xfeff 2 5 [1, 2, 3]
     = Inr \<lparr>protocolType = 0x17, dtlsVersion = 0xfeff, epoch = 2, sequenceNumber = 5,
            fragment = [1, 2, 3]\<rparr> \<and>
   (\<exists>buf. toEncryptedBuffer example_crypto 0
            \<lparr>protocolType = 0x17, dtlsVersion = 0xfeff, epoch = 2, sequenceNumber = 5,
             fragment = [1, 2, 3]\<rparr> AES_128_CBC (Some (replicate 16 7)) SHA1 (Some [9, 9]) = Inr buf \<and>
          fromEncryptedBuffer example_crypto buf None AES_128_CBC (Some (replicate 16 7)) SHA1
            (Some [9, 9])
            = Inr (Some (\<lparr>protocolType = 0x17, dtlsVersion = 0xfeff, epoch = 2,
                           sequenceNumber = 5, fragment = [1, 2, 3]\<rparr>, length buf)))"
proof -
  have cr: "createFromPlaintext 0x17 0xfeff 2 5 [1, 2, 3]
     = Inr \<lparr>protocolType = 0x17, dtlsVersion = 0xfeff, epoch = 2, sequenceNumber = 5,
            fragment = [1, 2, 3]\<rparr>"
    by (simp add: createFromPlaintext_def isProtocolTypeValid_def isDtlsVersionValid_def
        MAX_PLAINTEXT_FRAGMENT_LENGTH_def)
  show ?thesis
    using record_roundtrip [OF cr, of AES_128_CBC example_crypto 0 "replicate 16 7" None "[9, 9]"]
    by (simp add: cr example_crypto_def)
qed


text \<open>
  C8. An encrypted record whose decrypted plaintext has a bad padding, a bad MAC or
  both makes \<open>fromEncryptedBuffer\<close> return the same \<open>null\<close>. The library is taken to
  return 20-byte HMAC-SHA1 digests and a plaintext as long as the ciphertext.
\<close>

theorem fromEncryptedBuffer_rejects_alike:
  assumes bulk: "bulk \<noteq> BULK_NULL"
    and rng: "v < 65536" "e < 65536" "s < 2 ^ 48" "16 + length c < 65536"
    and iv: "length iv = 16" and c: "c \<noteq> []"
    and off: "off = None \<or> off = Some 0"
    and dec: "decipher L (getBulkAlgorithmAsString bulk) key iv c = Inr P"
    and lp: "length P = length c"
    and hm: "\<And>k d. length (createHmac L ''sha1'' k d) = 20"
    and bad: "padding_bad P \<or> mac_bad L macSecret macAlg e s (unat t) v P"
  shows "fromEncryptedBuffer L (recordOnWire t v e s (iv @ c) @ rest) off bulk (Some key) macAlg
           (Some macSecret) = Inr None"
proof -
  have "length P < 65536" using lp rng(4) by simp
  from decryptAndVerify_bad [OF dec this rng(2) rng(3) rng(1) hm bad]
  show ?thesis
    unfolding fromEncryptedBuffer_encrypted [OF bulk rng iv c off] by simp
qed

theorem fromEncryptedBuffer_rejects_alike_witness:
  "padding_bad (replicate 31 0 @ [5]) \<and>
   fromEncryptedBuffer example_crypto
     (recordOnWire 0x17 0xfeff 2 5 (replicate 16 0 @ (replicate 31 0 @ [5]))) None AES_128_CBC
     (Some (replicate 16 7)) SHA1 (Some [9, 9]) = Inr None \<and>
   \<not> padding_bad (replicate 15 0x18 @ [0]) \<and>
   mac_bad example_crypto [9, 9] SHA1 2 5 (unat (0x17 :: byte)) 0xfeff (replicate 15 0x18 @ [0]) \<and>
   fromEncryptedBuffer example_crypto
     (recordOnWire 0x17 0xfeff 2 5 (replicate 16 0 @ (replicate 15 0x18 @ [0]))) None AES_128_CBC
     (Some (replicate 16 7)) SHA1 (Some [9, 9]) = Inr None"
proof -
  have "(replicate 31 0 @ [5 :: byte]) ! (32 - 2 - 0) \<noteq> of_nat 5"
    by (simp add: nth_append)
  then have pb: "padding_bad (replicate 31 0 @ [5])"
    unfolding padding_bad_def Let_def by (intro disjI2 bexI [of _ 0]) simp_all
  have a: "fromEncryptedBuffer example_crypto
     (recordOnWire 0x17 0xfeff 2 5 (replicate 16 0 @ (replicate 31 0 @ [5]))) None AES_128_CBC
     (Some (replicate 16 7)) SHA1 (Some [9, 9]) = Inr None"
    using fromEncryptedBuffer_rejects_alike [of AES_128_CBC "0xfeff" 2 5 "replicate 31 0 @ [5]"
        "replicate 16 0" None example_crypto "replicate 16 7" "replicate 31 0 @ [5]" "[9, 9]" SHA1
        "0x17" "[]"] pb
    by (simp add: example_crypto_def)
  have npb: "\<not> padding_bad (replicate 15 0x18 @ [0])"
    unfolding padding_bad_def Let_def by simp
  have mbd: "mac_bad example_crypto [9, 9] SHA1 2 5 (unat (0x17 :: byte)) 0xfeff
               (replicate 15 0x18 @ [0])"
    unfolding mac_bad_def Let_def
    by (simp add: getMacAlgorithmHashSize_def example_crypto_def)
  have b: "fromEncryptedBuffer example_crypto
     (recordOnWire 0x17 0xfeff 2 5 (replicate 16 0 @ (replicate 15 0x18 @ [0]))) None AES_128_CBC
     (Some (replicate 16 7)) SHA1 (Some [9, 9]) = Inr None"
    using fromEncryptedBuffer_rejects_alike [of AES_128_CBC "0xfeff" 2 5
        "replicate 15 0x18 @ [0]" "replicate 16 0" None example_crypto "replicate 16 7"
        "replicate 15 0x18 @ [0]" "[9, 9]" SHA1 "0x17" "[]"] mbd
    by (simp add: example_crypto_def)
  from pb a npb mbd b show ?thesis by blast
qed

section \<open>The session\<close>

lemma tryE_simps [simp]: "tryE (Inl e) s k = (Threw e, s)" "tryE (Inr v) s k = k v"
  by (simp_all add: tryE_def)

lemmas eval_defs =
  onSocketMessage_def nextRecord_def fromEncryptedBuffer_def HEADER_LENGTH_def
  readUInt16BE_def readUIntBE_def uintBE_def Buffer_alloc_copy_def Let_def
  dispatchRecord_def onHandshake_def fieldOf_def DtlsHandshakeMessage_fromBuffer_def
  DtlsHandshakeProtocol_def DtlsChangeCipherSpecProtocol_def DtlsAlertProtocol_def
  DtlsApplicationDataProtocol_def
  MessageType_HelloVerifyRequest_def MessageType_ServerHello_def
  MessageType_ServerHelloDone_def MessageType_Finished_def

text \<open>
  C5. \<open>DtlsAlertMessage\<close> exposes \<open>create\<close>, \<open>toBuffer\<close> and \<open>fromBuffer\<close>, and \<open>create\<close>
  accepts level 1 (Warning) with description 0 (CloseNotify); serializing that message
  throws a ReferenceError instead of returning the two bytes.
\<close>

theorem DtlsAlertMessage_toBuffer_throws:
  "DtlsAlertMessage_create 1 0 = Inr \<lparr>level = 1, description = 0\<rparr> \<and>
   DtlsAlertMessage_toBuffer \<lparr>level = 1, description = 0\<rparr> = Inl ReferenceError"
  by (simp add: DtlsAlertMessage_create_def isAlertLevelValid_def isAlertDescriptionValid_def
      DtlsAlertMessage_toBuffer_def resolve_def DtlsAlertMessage_toBuffer_scope_def
      module_scope_def)

text \<open>
  The HelloVerifyRequest case ends with an exception for every library, message and
  session: a message too short to parse gives a TypeError, and otherwise
  \<open>ClientHelloMessage.create\<close> is called with a cookie and throws.
\<close>

lemma HelloVerifyRequest_never_completes:
  "\<exists>e. fst (onHelloVerifyRequest L hm s) = Threw e"
  by (auto simp: onHelloVerifyRequest_def fieldOf_def Let_def ClientHelloMessage_create_def
      resolve_def ClientHelloMessage_create_scope_def module_scope_def tryE_def bindE_def
      HelloVerifyRequestMessage_fromBuffer_def
      split: sum.splits option.splits if_splits)

text \<open>
  C1. The session in state ClientHelloSent receives one record with a HelloVerifyRequest
  whose cookie is \<open>de ad be ef\<close>. The transcript and the handshake sequence are reset,
  then \<open>ClientHelloMessage.create\<close> throws a ReferenceError out of \<open>onSocketMessage\<close>:
  no ClientHello is sent and nothing is appended to the transcript.
\<close>

theorem HelloVerifyRequest_throws:
  "onSocketMessage L
     [0x16, 0xfe, 0xff, 0, 0, 0, 0, 0, 0, 0, 0, 0, 19,
      3, 0, 0, 7, 0, 0, 0, 0, 0, 0, 0, 7,
      0xfe, 0xff, 4, 0xde, 0xad, 0xbe, 0xef] example_session
   = (Threw ReferenceError,
      example_session\<lparr>allHandshakeMessagesAsBuffer := [], handshakeMessageSequence := 0\<rparr>)"
  by (simp add: eval_defs example_session_def onHelloVerifyRequest_def
      HelloVerifyRequestMessage_fromBuffer_def ClientHelloMessage_create_def
      ClientHelloMessage_create_scope_def module_scope_def resolve_def DTLS_1_0_def
      isDtlsVersionValid_def SessionState_ClientHelloSent_def)

text \<open>A datagram of one byte: \<open>fromEncryptedBuffer\<close> returns \<open>null\<close> and the handler throws.\<close>

lemma onSocketMessage_short: "onSocketMessage L [b] s = (Threw TypeError, s)"
  by (simp add: onSocketMessage_def nextRecord_def fromEncryptedBuffer_def HEADER_LENGTH_def)

text \<open>
  C3. A datagram with a complete application-data record (\<open>68 69\<close>) followed by a
  record cut off after one of its two fragment bytes: the first record is delivered to
  the message callback, the second one does not decode, and a TypeError leaves
  \<open>onSocketMessage\<close>.
\<close>

theorem truncated_record_throws:
  "onSocketMessage L
     [0x17, 0xfe, 0xff, 0, 0, 0, 0, 0, 0, 0, 0, 0, 2, 0x68, 0x69,
      0x17, 0xfe, 0xff, 0, 0, 0, 0, 0, 0, 0, 1, 0, 2, 0x68] example_session
   = (Threw TypeError, example_session\<lparr>events := [MessageCallback [0x68, 0x69]]\<rparr>)"
  by (simp add: eval_defs example_session_def onApplicationData_def
      DtlsApplicationDataMessage_fromBuffer_def SessionState_ClientHelloSent_def)

section \<open>Sending application data\<close>

lemma bytesBE_2: "bytesBE 2 v = [of_nat (v div 256 mod 256), of_nat (v mod 256)]"
  by (simp add: numeral_2_eq_2)

lemma bytesBE_3:
  "bytesBE 3 v = [of_nat (v div 256 div 256 mod 256), of_nat (v div 256 mod 256), of_nat (v mod 256)]"
  by (simp add: numeral_3_eq_3)

lemma bytesBE_add: "bytesBE (m + n) v = bytesBE m (v div 256 ^ n) @ bytesBE n v"
proof (induction n arbitrary: v)
  case 0 then show ?case by simp
next
  case (Suc n)
  have "v div 256 div 256 ^ n = v div 256 ^ Suc n"
    by (simp add: div_mult2_eq)
  with Suc [of "v div 256"] show ?case by simp
qed

lemma bytesBE_6: "bytesBE 6 v = bytesBE 3 (v div 16777216) @ bytesBE 3 v"
  using bytesBE_add [of 3 3 v] by simp

lemmas send_defs =
  sendApplicationData_def DtlsApplicationDataMessage_create_def
  DtlsApplicationDataMessage_toBuffer_def
  newRecord_def encryptForSend_def createFromPlaintext_def isProtocolTypeValid_def
  isDtlsVersionValid_def MAX_PLAINTEXT_FRAGMENT_LENGTH_def DTLS_1_0_def
  DtlsApplicationDataProtocol_def toEncryptedBuffer_def Let_def
  getBulkAlgorithmBlockSize_def getBulkAlgorithmAsString_def
  buildBufferForMacCalculation_def buildBufferForEncryption_def
  writeUInt16BE_def writeUIntBE_def ivDrawn_def
  incrementNextOutgoingSequenceNumber_def socket_send_def recordOnWire_def
  bytesBE_2 bytesBE_3 bytesBE_6





section \<open>The client's second flight\<close>







section \<open>The server's Finished\<close>

lemma Buffer_compare_refl [simp]: "Buffer_compare xs xs = 0"
  by (induction xs) auto

lemma prf_ex2:
  "PRF example_crypto (replicate 48 2) ''server finished'' (replicate 16 4 @ replicate 20 4) 12
     = Some (replicate 12 4)"
  by (simp add: PRF_def P_hash_def P_hash_loop.simps example_crypto_def Let_def xorBuffers_def
      Buffer_from_string_def upt_rec numeral_nat)

lemma negotiated_session_fields [simp]:
  "messageQueue (negotiated_session st q ev n rc) = q"
  "sessionState (negotiated_session st q ev n rc) = st"
  "events (negotiated_session st q ev n rc) = ev"
  "connectListener (negotiated_session st q ev n rc) = Some [0x31]"
  "allHandshakeMessagesAsBuffer (negotiated_session st q ev n rc) = [1, 0, 0, 0]"
  "masterSecret (securityParameters (negotiated_session st q ev n rc)) = Some (replicate 48 2)"
  "(negotiated_session st q ev n rc)\<lparr>messageQueue := q'\<rparr> = negotiated_session st q' ev n rc"
  "(negotiated_session st q ev n rc)\<lparr>sessionState := st'\<rparr> = negotiated_session st' q ev n rc"
  "(negotiated_session st q ev n rc)\<lparr>events := ev'\<rparr> = negotiated_session st q ev' n rc"
  by (simp_all add: negotiated_session_def)

lemma connected_send2:
  assumes "n < 2 ^ 48"
  shows "sendApplicationData example_crypto [b] (negotiated_session SessionState_Connected q ev n rc)
   = (Normal, negotiated_session SessionState_Connected q
        (ev @ [Sent (recordOnWire 0x17 0xfeff 1 n
                 (replicate 16 (of_nat rc) @ [b] @ replicate 20 14 @ replicate 10 10 @ [10]))])
        (n + 1) (rc + 1))"
  using assms
  by (simp add: send_defs negotiated_session_def SessionState_Connected_def example_crypto_def)

lemma drain_two:
  "drainMessageQueue example_crypto
     (negotiated_session SessionState_Connected [[0x41], [0x42]] ev 2 6)
   = Some (Normal, negotiated_session SessionState_Connected []
        (ev @ [Sent (recordOnWire 0x17 0xfeff 1 2
                 (replicate 16 6 @ [0x42] @ replicate 20 14 @ replicate 10 10 @ [10])),
               Sent (recordOnWire 0x17 0xfeff 1 3
                 (replicate 16 7 @ [0x41] @ replicate 20 14 @ replicate 10 10 @ [10]))])
        4 8)"
  apply (subst drainMessageQueue.simps)
  apply (simp add: Let_def connected_send2)
  apply (subst drainMessageQueue.simps)
  apply (simp add: Let_def connected_send2)
  apply (subst drainMessageQueue.simps)
  apply simp
  done

text \<open>
  C4. The server's Finished arrives with the verify data that the session computes,
  with the payloads \<open>0x41\<close> and then \<open>0x42\<close> in the queue. The session becomes Connected,
  calls the connect listener once (whose payload \<open>0x31\<close> goes out first), and drains the
  queue from its end: \<open>0x42\<close> is transmitted before \<open>0x41\<close>.
\<close>

theorem queue_drained_last_in_first_out:
  "onFinished example_crypto
     \<lparr>messageType = 20, length_field = 12, messageSequence = 3, fragmentOffset = 0,
      fragmentLength = 12, message = replicate 12 4\<rparr>
     (negotiated_session SessionState_FinishedSent [[0x41], [0x42]] [] 1 5)
   = (Normal,
      negotiated_session SessionState_Connected []
        [ConnectCallback,
         Sent (recordOnWire 0x17 0xfeff 1 1
                 (replicate 16 5 @ [0x31] @ replicate 20 14 @ replicate 10 10 @ [10])),
         Sent (recordOnWire 0x17 0xfeff 1 2
                 (replicate 16 6 @ [0x42] @ replicate 20 14 @ replicate 10 10 @ [10])),
         Sent (recordOnWire 0x17 0xfeff 1 3
                 (replicate 16 7 @ [0x41] @ replicate 20 14 @ replicate 10 10 @ [10]))]
        4 8)"
proof -
  have h: "createHash example_crypto ''md5'' [1, 0, 0, 0] = replicate 16 4"
    "createHash example_crypto ''sha1'' [1, 0, 0, 0] = replicate 20 4"
    by (simp_all add: example_crypto_def)
  have v: "Buffer_alloc_copy VERIFY_DATA_LENGTH (replicate 12 4) 0 VERIFY_DATA_LENGTH
             = replicate 12 4"
    by (simp add: Buffer_alloc_copy_def VERIFY_DATA_LENGTH_def)
  have lt: "(1 :: nat) < 2 ^ 48" by simp
  have c: "callConnectListener example_crypto
             (negotiated_session SessionState_Connected [[0x41], [0x42]] [] (Suc 0) 5)
           = (Normal, negotiated_session SessionState_Connected [[0x41], [0x42]]
                [ConnectCallback,
                 Sent (recordOnWire 0x17 0xfeff 1 1
                   (replicate 16 5 @ [0x31] @ replicate 20 14 @ replicate 10 10 @ [10]))] 2 6)"
    using connected_send2 [OF lt, of "0x31" "[[0x41], [0x42]]" "[ConnectCallback]" 5]
    by (simp add: callConnectListener_def numeral_2_eq_2)
  show ?thesis
    unfolding onFinished_def Let_def
    by (simp add: fieldOf_def FinishedMessage_fromBuffer_def v h tryPRF_def prf_ex2 c
        drain_two [of "[ConnectCallback, Sent (recordOnWire 0x17 0xfeff 1 1
                   (replicate 16 5 @ [0x31] @ replicate 20 14 @ replicate 10 10 @ [10]))]", simplified])
qed


end
